theory Spec2Isabelle
  imports Main "HOL-Library.AList"
begin

section \<open>WritePRD: reconciling a requirement with the existing PRD documents\<close>

text \<open>
  A shallow embedding of \<^verbatim>\<open>metagpt/actions/write_prd.py\<close>. The action talks to a
  language model, to two file repositories, to the process-wide configuration and to a
  few helpers. The mutable parts (configuration, repositories) are the fields of a state
  record that every operation takes and returns; the collaborators whose code is not part
  of the file (the language model, the JSON encoder, the diagram renderer, the exporter)
  are the fields of an environment record. Every call that leaves the action is also
  written to a trace, so that "was it called" is a property of the final state. A Python
  exception is the left summand of the result, and the state reached at the raise is kept.
\<close>

subsection \<open>Python values\<close>

datatype error =
    TypeError
  | AttributeError
  | ValueError
  | External string

text \<open>A value decoded by \<^verbatim>\<open>json.loads\<close> (numbers are kept as integers).\<close>

datatype json =
    JNull
  | JBool bool
  | JNum int
  | JStr string
  | JArr "json list"
  | JObj "(string \<times> json) list"

text \<open>Python truth value of a decoded JSON value, as tested by \<^verbatim>\<open>if not x\<close>.\<close>

fun json_truthy :: "json \<Rightarrow> bool" where
  "json_truthy JNull = False"
| "json_truthy (JBool b) = b"
| "json_truthy (JNum n) = (n \<noteq> 0)"
| "json_truthy (JStr s) = (s \<noteq> [])"
| "json_truthy (JArr xs) = (xs \<noteq> [])"
| "json_truthy (JObj kvs) = (kvs \<noteq> [])"

text \<open>
  Truth value of a configuration entry that is \<^verbatim>\<open>None\<close> or a \<^verbatim>\<open>str\<close>:
  \<^verbatim>\<open>None\<close> and the empty string are false.
\<close>

fun truthy :: "string option \<Rightarrow> bool" where
  "truthy None = False"
| "truthy (Some s) = (s \<noteq> [])"

text \<open>\<^verbatim>\<open>sub in s\<close> on strings: \<open>sub\<close> occurs in \<open>s\<close> as a contiguous block.\<close>

fun starts_with :: "string \<Rightarrow> string \<Rightarrow> bool" where
  "starts_with [] s = True"
| "starts_with (c # cs) [] = False"
| "starts_with (c # cs) (d # ds) = (c = d \<and> starts_with cs ds)"

fun py_in :: "string \<Rightarrow> string \<Rightarrow> bool" where
  "py_in sub [] = (sub = [])"
| "py_in sub (c # cs) = (starts_with sub (c # cs) \<or> py_in sub cs)"

text \<open>
  \<^verbatim>\<open>Path(p).name\<close> for a POSIX path: the path is cut at the slashes, empty
  components and \<^verbatim>\<open>.\<close> components are dropped, and the name is the last component
  left, or the empty string when none is left (\<^verbatim>\<open>Path("/").name\<close>,
  \<^verbatim>\<open>Path(".").name\<close> and \<^verbatim>\<open>Path("").name\<close> are all \<^verbatim>\<open>""\<close>).
\<close>

fun split_on :: "char \<Rightarrow> string \<Rightarrow> string list" where
  "split_on c [] = [[]]"
| "split_on c (x # xs) =
     (if x = c then [] # split_on c xs
      else (case split_on c xs of
              [] \<Rightarrow> [[x]]
            | p # ps \<Rightarrow> (x # p) # ps))"

definition path_parts :: "string \<Rightarrow> string list" where
  "path_parts p = filter (\<lambda>q. q \<noteq> [] \<and> q \<noteq> ''.'') (split_on (CHR ''/'') p)"

definition path_name :: "string \<Rightarrow> string" where
  "path_name p = (case path_parts p of [] \<Rightarrow> [] | q # qs \<Rightarrow> last (q # qs))"

subsection \<open>Documents and results\<close>

record Document =
  root_path :: string
  filename :: string
  content :: string

text \<open>The fields of \<^verbatim>\<open>OUTPUT_MAPPING\<close>: the structured PRD the model is asked for.\<close>

record prd_fields =
  Language :: string
  Original_Requirements :: string
  Project_Name :: string
  Product_Goals :: "string list"
  User_Stories :: "string list"
  Competitive_Analysis :: "string list"
  Competitive_Quadrant_Chart :: string
  Requirement_Analysis :: string
  Requirement_Pool :: "string list list"
  UI_Design_draft :: string
  Anything_UNCLEAR :: string

record ActionOutput =
  ao_content :: string
  instruct_content :: prd_fields

text \<open>
  The argument of \<^verbatim>\<open>_rename_workspace\<close> is either an \<^verbatim>\<open>ActionOutput\<close>
  or raw text (\<^verbatim>\<open>isinstance(prd, ActionOutput)\<close>).
\<close>

datatype prd_arg = Structured ActionOutput | RawText string

record BugFixContext =
  bf_filename :: string

record Message =
  msg_instruct_content :: BugFixContext
  msg_role :: string
  msg_cause_by :: string
  msg_send_to :: string

text \<open>
  \<^verbatim>\<open>Documents.docs\<close> is a Python dict from file name to document: an association
  list updated with \<^const>\<open>AList.update\<close>, which replaces the value of a key that is
  present and appends a new key at the end, as a dict does.
\<close>

type_synonym Documents = "(string \<times> Document) list"

text \<open>
  What \<^verbatim>\<open>run\<close> returns: a \<^verbatim>\<open>Message\<close> carrying a
  \<^verbatim>\<open>BugFixContext\<close>, or an \<^verbatim>\<open>ActionOutput\<close> whose
  \<^verbatim>\<open>instruct_content\<close> is the changed documents. The \<^verbatim>\<open>content\<close> of
  both is the JSON text of the same value and is not kept apart.
\<close>

datatype run_result = RMessage Message | ROutput Documents

subsection \<open>State, trace and environment\<close>

datatype event =
    EvAsk string
  | EvAskV1 string string
  | EvDocsGet string
  | EvDocsSave string string
  | EvDocsDelete string
  | EvPrdsGetAll
  | EvPrdsSave string string
  | EvNewFilename
  | EvParseStr string string
  | EvMkdir string
  | EvMermaid json string
  | EvSaveAs Document
  | EvRenameRoot string

text \<open>
  \<open>project_name\<close> and \<open>project_path\<close> are the two entries of \<^verbatim>\<open>CONFIG\<close>
  the action reads and writes. \<open>docs_repo\<close> is the file repository of
  \<^verbatim>\<open>DOCS_FILE_REPO\<close> and \<open>prds_repo\<close> the one of \<^verbatim>\<open>PRDS_FILE_REPO\<close>,
  each a list of file name and content in the order \<^verbatim>\<open>get_all\<close> lists them.
  A file of the PRD repository whose content is \<open>None\<close> is a file that is there and
  cannot be read. \<^verbatim>\<open>FileRepository.get\<close> answers \<^verbatim>\<open>None\<close> for such a file, and
  \<^verbatim>\<open>get_all\<close>, which reads every file with \<^verbatim>\<open>get\<close>, keeps that
  \<^verbatim>\<open>None\<close> in the list it returns. Saving a file makes its content readable.
  Repository operations always succeed in this model.
\<close>

record state =
  project_name :: "string option"
  project_path :: "string option"
  docs_repo :: "(string \<times> string) list"
  prds_repo :: "(string \<times> string option) list"
  trace :: "event list"

text \<open>
  The collaborators and constants imported by the file. A collaborator that can raise
  returns a sum (\<open>Inl\<close> the exception) or an optional error. The language model is a
  function of the prompt. \<open>new_filename k\<close> is the name that
  \<^verbatim>\<open>FileRepository.new_filename()\<close> hands out when \<open>k\<close> names were handed out
  before it; the real one is read off the clock, so two calls may give the same name.
\<close>

record env =
  aask :: "string \<Rightarrow> error + string"
  aask_v1 :: "string \<Rightarrow> string \<Rightarrow> error + ActionOutput"
  prompt_format :: string
  profile :: string
  REQUIREMENT_FILENAME :: string
  BUGFIX_FILENAME :: string
  DOCS_FILE_REPO :: string
  PRDS_FILE_REPO :: string
  new_filename :: "nat \<Rightarrow> string"
  sas_result :: string
  str_of_list :: "string list \<Rightarrow> string"
  instruct_json :: "prd_fields \<Rightarrow> string"
  json_loads :: "string \<Rightarrow> error + json"
  analysis_pathname :: "string \<Rightarrow> error + string"
  parent_exists :: "string \<Rightarrow> bool"
  mkdir_parent :: "string \<Rightarrow> error option"
  mermaid_to_file :: "json \<Rightarrow> string \<Rightarrow> error option"
  save_as :: "Document \<Rightarrow> error option"
  parse_str :: "string \<Rightarrow> string \<Rightarrow> error + string"

type_synonym 'a action = "state \<Rightarrow> (error + 'a) \<times> state"

definition ret :: "'a \<Rightarrow> 'a action" where
  "ret x s = (Inr x, s)"

definition raise :: "error \<Rightarrow> 'a action" where
  "raise e s = (Inl e, s)"

text \<open>Sequencing: an exception of the first action skips the second.\<close>

definition bind :: "'a action \<Rightarrow> ('a \<Rightarrow> 'b action) \<Rightarrow> 'b action" where
  "bind m f s = (case m s of (Inl e, s') \<Rightarrow> (Inl e, s') | (Inr x, s') \<Rightarrow> f x s')"

definition emit :: "event \<Rightarrow> unit action" where
  "emit ev s = (Inr (), s\<lparr>trace := trace s @ [ev]\<rparr>)"

text \<open>An external call: written to the trace, then its result or its exception.\<close>

definition call :: "event \<Rightarrow> error + 'a \<Rightarrow> 'a action" where
  "call ev r = bind (emit ev) (\<lambda>_. case r of Inl e \<Rightarrow> raise e | Inr x \<Rightarrow> ret x)"

definition call_unit :: "event \<Rightarrow> error option \<Rightarrow> unit action" where
  "call_unit ev r = bind (emit ev) (\<lambda>_. case r of Some e \<Rightarrow> raise e | None \<Rightarrow> ret ())"

subsection \<open>File repositories\<close>

definition docs_get :: "env \<Rightarrow> string \<Rightarrow> Document option action" where
  "docs_get E name s =
     bind (emit (EvDocsGet name))
       (\<lambda>_. ret (case map_of (docs_repo s) name of
                    None \<Rightarrow> None
                  | Some c \<Rightarrow> Some \<lparr>root_path = DOCS_FILE_REPO E, filename = name, content = c\<rparr>)) s"

definition docs_save :: "string \<Rightarrow> string \<Rightarrow> unit action" where
  "docs_save name c s =
     emit (EvDocsSave name c) (s\<lparr>docs_repo := AList.update name c (docs_repo s)\<rparr>)"

definition docs_delete :: "string \<Rightarrow> unit action" where
  "docs_delete name s =
     emit (EvDocsDelete name) (s\<lparr>docs_repo := AList.delete name (docs_repo s)\<rparr>)"

definition prds_get_all :: "env \<Rightarrow> Document option list action" where
  "prds_get_all E s =
     bind (emit EvPrdsGetAll)
       (\<lambda>_. ret (map (\<lambda>(n, c). case c of
                                 None \<Rightarrow> None
                               | Some t \<Rightarrow> Some \<lparr>root_path = PRDS_FILE_REPO E, filename = n,
                                                 content = t\<rparr>)
                      (prds_repo s))) s"

definition prds_save :: "string \<Rightarrow> string \<Rightarrow> unit action" where
  "prds_save name c s =
     emit (EvPrdsSave name c) (s\<lparr>prds_repo := AList.update name (Some c) (prds_repo s)\<rparr>)"

text \<open>How many new file names were handed out so far: one per generated PRD.\<close>

definition generated :: "state \<Rightarrow> nat" where
  "generated s = count_list (trace s) EvNewFilename"

subsection \<open>Prompts\<close>

text \<open>
  Each prompt is the module's template with its fields filled in by
  \<^verbatim>\<open>str.format\<close>: the text between the fields, and the arguments in their places.
\<close>

definition NL :: string where
  "NL = [CHR 0x0A]"

definition IS_BUGFIX_PROMPT_1 :: string where
  \<open>IS_BUGFIX_PROMPT_1 = concat
    [NL]\<close>

definition IS_BUGFIX_PROMPT_2 :: string where
  \<open>IS_BUGFIX_PROMPT_2 = concat
    [NL,
     NL,
     ''___'', NL,
     ''You are a professional product manager; You need to determine whether the above content describes a requirement or provides feedback about a bug.'',
     NL,
     ''Respond with `YES` if it is a feedback about a bug, `NO` if it is not, and provide the reasons. Return the response in JSON format like below:'',
     NL,
     NL,
     ''```json'', NL,
     ''{'', NL,
     ''    "is_bugfix": ..., # `YES` or `NO`'', NL,
     ''    "reason": ..., # reason string'', NL,
     ''}'', NL,
     ''```'', NL]\<close>

definition IS_BUGFIX_PROMPT :: "string \<Rightarrow> string" where
  "IS_BUGFIX_PROMPT c =
     IS_BUGFIX_PROMPT_1 @ c @ IS_BUGFIX_PROMPT_2"

definition IS_RELATIVE_PROMPT_1 :: string where
  \<open>IS_RELATIVE_PROMPT_1 = concat
    [NL,
     ''## PRD:'', NL]\<close>

definition IS_RELATIVE_PROMPT_2 :: string where
  \<open>IS_RELATIVE_PROMPT_2 = concat
    [NL,
     NL,
     ''## New Requirement:'', NL]\<close>

definition IS_RELATIVE_PROMPT_3 :: string where
  \<open>IS_RELATIVE_PROMPT_3 = concat
    [NL,
     NL,
     ''___'', NL,
     ''You are a professional product manager; You need to assess whether the new requirements are relevant to the existing PRD to determine whether to merge the new requirements into this PRD.'',
     NL,
     ''Is the newly added requirement in "New Requirement" related to the PRD? '', NL,
     ''Respond with `YES` if it is related, `NO` if it is not, and provide the reasons. Return the response in JSON format.'',
     NL]\<close>

definition IS_RELATIVE_PROMPT :: "string \<Rightarrow> string \<Rightarrow> string" where
  "IS_RELATIVE_PROMPT old_prd requirements =
     IS_RELATIVE_PROMPT_1 @ old_prd @ IS_RELATIVE_PROMPT_2 @ requirements @ IS_RELATIVE_PROMPT_3"

definition MERGE_PROMPT_1 :: string where
  \<open>MERGE_PROMPT_1 = concat
    [NL,
     ''# Context'', NL,
     ''## Original Requirements'', NL]\<close>

definition MERGE_PROMPT_2 :: string where
  \<open>MERGE_PROMPT_2 = concat
    [NL,
     NL,
     NL,
     ''## Old PRD'', NL]\<close>

definition MERGE_PROMPT_3 :: string where
  \<open>MERGE_PROMPT_3 = concat
    [NL,
     ''-----'', NL,
     ''Role: You are a professional product manager; The goal is to incorporate the newly added requirements from the "Original Requirements" into the existing Product Requirements Document (PRD) in the "Old PRD" in order to design a concise, usable, and efficient product.'',
     NL,
     ''Language: Please use the same language as the user requirement, but the title and code should be still in English. For example, if the user speaks Chinese, the specific text of your answer should also be in Chinese.'',
     NL,
     ''Requirements: According to the context, fill in the following missing information, each section name is a key in json ,If the requirements are unclear, ensure minimum viability and avoid excessive design'',
     NL,
     ''ATTENTION: Output carefully referenced "Old PRD" in format.'', NL,
     NL,
     ''## YOU NEED TO FULFILL THE BELOW JSON DOC'', NL,
     NL,
     ''{'', NL,
     ''    "Language": "", # str, use the same language as the user requirement. en_us / zh_cn etc.'',
     NL,
     ''    "Original Requirements": "", # str, place the polished complete original requirements here'',
     NL,
     ''    "Project Name": "'']\<close>

definition MERGE_PROMPT_4 :: string where
  \<open>MERGE_PROMPT_4 = concat
    [''", # str, if it'', [CHR 0x27],
     ''s empty, name it with snake case style, like game_2048 / web_2048 / simple_crm etc.'', NL,
     ''    "Search Information": "",'', NL,
     ''    "Requirements": "", '', NL,
     ''    "Product Goals": [], # Provided as Python list[str], up to 3 clear, orthogonal product goals.'',
     NL,
     ''    "User Stories": [], # Provided as Python list[str], up to 5 scenario-based user stories'',
     NL,
     ''    "Competitive Analysis": [], # Provided as Python list[str], up to 8 competitive product analyses'',
     NL,
     ''    # Use mermaid quadrantChart code syntax. up to 14 competitive products. Translation: Distribute these competitor scores evenly between 0 and 1, trying to conform to a normal distribution centered around 0.5 as much as possible.'',
     NL,
     ''    "Competitive Quadrant Chart": "quadrantChart'', NL,
     ''                title Reach and engagement of campaigns'', NL,
     ''                x-axis Low Reach --> High Reach'', NL,
     ''                y-axis Low Engagement --> High Engagement'', NL,
     ''                quadrant-1 We should expand'', NL,
     ''                quadrant-2 Need to promote'', NL,
     ''                quadrant-3 Re-evaluate'', NL,
     ''                quadrant-4 May be improved'', NL,
     ''                Campaign A: [0.3, 0.6]'', NL,
     ''                Campaign B: [0.45, 0.23]'', NL,
     ''                Campaign C: [0.57, 0.69]'', NL,
     ''                Campaign D: [0.78, 0.34]'', NL,
     ''                Campaign E: [0.40, 0.34]'', NL,
     ''                Campaign F: [0.35, 0.78]",'', NL,
     ''    "Requirement Analysis": "", # Provide as Plain text.'', NL,
     ''    "Requirement Pool": [["P0","P0 requirement"],["P1","P1 requirement"]], # Provided as Python list[list[str], the parameters are requirement description, priority(P0/P1/P2), respectively, comply with PEP standards'',
     NL,
     ''    "UI Design draft": "", # Provide as Plain text. Be simple. Describe the elements and functions, also provide a simple style description and layout description.'',
     NL,
     ''    "Anything UNCLEAR": "", # Provide as Plain text. Try to clarify it.'', NL,
     ''}'', NL,
     NL,
     ''output a properly formatted JSON, wrapped inside [CONTENT][/CONTENT] like "Old PRD" format,'',
     NL,
     ''and only output the json inside this tag, nothing else'', NL]\<close>

definition MERGE_PROMPT :: "string \<Rightarrow> string \<Rightarrow> string \<Rightarrow> string" where
  "MERGE_PROMPT requirements old_prd pname =
     MERGE_PROMPT_1 @ requirements @ MERGE_PROMPT_2 @ old_prd @ MERGE_PROMPT_3 @ pname @ MERGE_PROMPT_4"

definition JSON_PROMPT_TEMPLATE_1 :: string where
  \<open>JSON_PROMPT_TEMPLATE_1 = concat
    [NL,
     ''# Context'', NL,
     ''{'', NL,
     ''    "Original Requirements": "'']\<close>

definition JSON_PROMPT_TEMPLATE_2 :: string where
  \<open>JSON_PROMPT_TEMPLATE_2 = concat
    [''",'', NL,
     ''    "Search Information": ""'', NL,
     ''} '', NL,
     NL,
     ''## Format example'', NL]\<close>

definition JSON_PROMPT_TEMPLATE_3 :: string where
  \<open>JSON_PROMPT_TEMPLATE_3 = concat
    [NL,
     ''-----'', NL,
     ''Role: You are a professional product manager; the goal is to design a concise, usable, efficient product'',
     NL,
     ''Language: Please use the same language as the user requirement, but the title and code should be still in English. For example, if the user speaks Chinese, the specific text of your answer should also be in Chinese.'',
     NL,
     ''Requirements: According to the context, fill in the following missing information, note that each sections are returned in Python code triple quote form seperatedly.'',
     NL,
     ''ATTENTION: Output carefully referenced "Format example" in format.'', NL,
     NL,
     ''## YOU NEED TO FULFILL THE BELOW JSON DOC'', NL,
     NL,
     ''{'', NL,
     ''    "Language": "", # str, use the same language as the user requirement. en_us / zh_cn etc.'',
     NL,
     ''    "Original Requirements": "", # str, place the polished complete original requirements here'',
     NL,
     ''    "Project Name": "'']\<close>

definition JSON_PROMPT_TEMPLATE_4 :: string where
  \<open>JSON_PROMPT_TEMPLATE_4 = concat
    [''", # str, if it'', [CHR 0x27],
     ''s empty, name it with snake case style, like game_2048 / web_2048 / simple_crm etc.'', NL,
     ''    "Search Information": "",'', NL,
     ''    "Requirements": "", '', NL,
     ''    "Product Goals": [], # Provided as Python list[str], up to 3 clear, orthogonal product goals.'',
     NL,
     ''    "User Stories": [], # Provided as Python list[str], up to 5 scenario-based user stories'',
     NL,
     ''    "Competitive Analysis": [], # Provided as Python list[str], up to 8 competitive product analyses'',
     NL,
     ''    # Use mermaid quadrantChart code syntax. up to 14 competitive products. Translation: Distribute these competitor scores evenly between 0 and 1, trying to conform to a normal distribution centered around 0.5 as much as possible.'',
     NL,
     ''    "Competitive Quadrant Chart": "quadrantChart'', NL,
     ''                title Reach and engagement of campaigns'', NL,
     ''                x-axis Low Reach --> High Reach'', NL,
     ''                y-axis Low Engagement --> High Engagement'', NL,
     ''                quadrant-1 We should expand'', NL,
     ''                quadrant-2 Need to promote'', NL,
     ''                quadrant-3 Re-evaluate'', NL,
     ''                quadrant-4 May be improved'', NL,
     ''                Campaign A: [0.3, 0.6]'', NL,
     ''                Campaign B: [0.45, 0.23]'', NL,
     ''                Campaign C: [0.57, 0.69]'', NL,
     ''                Campaign D: [0.78, 0.34]'', NL,
     ''                Campaign E: [0.40, 0.34]'', NL,
     ''                Campaign F: [0.35, 0.78]",'', NL,
     ''    "Requirement Analysis": "", # Provide as Plain text.'', NL,
     ''    "Requirement Pool": [["P0","P0 requirement"],["P1","P1 requirement"]], # Provided as Python list[list[str], the parameters are requirement description, priority(P0/P1/P2), respectively, comply with PEP standards'',
     NL,
     ''    "UI Design draft": "", # Provide as Plain text. Be simple. Describe the elements and functions, also provide a simple style description and layout description.'',
     NL,
     ''    "Anything UNCLEAR": "", # Provide as Plain text. Try to clarify it.'', NL,
     ''}'', NL,
     NL,
     ''output a properly formatted JSON, wrapped inside [CONTENT][/CONTENT] like format example,'',
     NL,
     ''and only output the json inside this tag, nothing else'', NL]\<close>

definition JSON_PROMPT_TEMPLATE :: "string \<Rightarrow> string \<Rightarrow> string \<Rightarrow> string \<Rightarrow> string" where
  "JSON_PROMPT_TEMPLATE requirements search_information format_example pname =
     JSON_PROMPT_TEMPLATE_1 @ requirements @ JSON_PROMPT_TEMPLATE_2 @ format_example @ JSON_PROMPT_TEMPLATE_3 @ pname @ JSON_PROMPT_TEMPLATE_4"

definition JSON_FORMAT_EXAMPLE_1 :: string where
  \<open>JSON_FORMAT_EXAMPLE_1 = concat
    [NL,
     ''[CONTENT]'', NL,
     ''{'', NL,
     ''    "Language": "",'', NL,
     ''    "Original Requirements": "",'', NL,
     ''    "Project Name": "'']\<close>

definition JSON_FORMAT_EXAMPLE_2 :: string where
  \<open>JSON_FORMAT_EXAMPLE_2 = concat
    [''",'', NL,
     ''    "Search Information": "",'', NL,
     ''    "Requirements": "",'', NL,
     ''    "Product Goals": [],'', NL,
     ''    "User Stories": [],'', NL,
     ''    "Competitive Analysis": [],'', NL,
     ''    "Competitive Quadrant Chart": "quadrantChart'', NL,
     ''                title Reach and engagement of campaigns'', NL,
     ''                x-axis Low Reach --> High Reach'', NL,
     ''                y-axis Low Engagement --> High Engagement'', NL,
     ''                quadrant-1 We should expand'', NL,
     ''                quadrant-2 Need to promote'', NL,
     ''                quadrant-3 Re-evaluate'', NL,
     ''                quadrant-4 May be improved'', NL,
     ''                Campaign A: [0.3, 0.6]'', NL,
     ''                Campaign B: [0.45, 0.23]'', NL,
     ''                Campaign C: [0.57, 0.69]'', NL,
     ''                Campaign D: [0.78, 0.34]'', NL,
     ''                Campaign E: [0.40, 0.34]'', NL,
     ''                Campaign F: [0.35, 0.78]",'', NL,
     ''    "Requirement Analysis": "",'', NL,
     ''    "Requirement Pool": [["P0","P0 requirement"],["P1","P1 requirement"]],'', NL,
     ''    "UI Design draft": "",'', NL,
     ''    "Anything UNCLEAR": "",'', NL,
     ''}'', NL,
     ''[/CONTENT]'', NL]\<close>

definition JSON_FORMAT_EXAMPLE :: "string \<Rightarrow> string" where
  "JSON_FORMAT_EXAMPLE pname =
     JSON_FORMAT_EXAMPLE_1 @ pname @ JSON_FORMAT_EXAMPLE_2"

definition MARKDOWN_PROMPT_TEMPLATE_1 :: string where
  \<open>MARKDOWN_PROMPT_TEMPLATE_1 = concat
    [NL,
     ''# Context'', NL,
     ''## Original Requirements'', NL]\<close>

definition MARKDOWN_PROMPT_TEMPLATE_2 :: string where
  \<open>MARKDOWN_PROMPT_TEMPLATE_2 = concat
    [NL,
     NL,
     ''## Search Information'', NL]\<close>

definition MARKDOWN_PROMPT_TEMPLATE_3 :: string where
  \<open>MARKDOWN_PROMPT_TEMPLATE_3 = concat
    [NL,
     NL,
     ''## mermaid quadrantChart code syntax example. DONT USE QUOTO IN CODE DUE TO INVALID SYNTAX. Replace the <Campain X> with REAL COMPETITOR NAME'',
     NL,
     ''```mermaid'', NL,
     ''quadrantChart'', NL,
     ''    title Reach and engagement of campaigns'', NL,
     ''    x-axis Low Reach --> High Reach'', NL,
     ''    y-axis Low Engagement --> High Engagement'', NL,
     ''    quadrant-1 We should expand'', NL,
     ''    quadrant-2 Need to promote'', NL,
     ''    quadrant-3 Re-evaluate'', NL,
     ''    quadrant-4 May be improved'', NL,
     ''    "Campaign: A": [0.3, 0.6]'', NL,
     ''    "Campaign B": [0.45, 0.23]'', NL,
     ''    "Campaign C": [0.57, 0.69]'', NL,
     ''    "Campaign D": [0.78, 0.34]'', NL,
     ''    "Campaign E": [0.40, 0.34]'', NL,
     ''    "Campaign F": [0.35, 0.78]'', NL,
     ''    "Our Target Product": [0.5, 0.6]'', NL,
     ''```'', NL,
     NL,
     ''## Format example'', NL]\<close>

definition MARKDOWN_PROMPT_TEMPLATE_4 :: string where
  \<open>MARKDOWN_PROMPT_TEMPLATE_4 = concat
    [NL,
     ''-----'', NL,
     ''Role: You are a professional product manager; the goal is to design a concise, usable, efficient product'',
     NL,
     ''Language: Please use the same language as the user requirement to answer, but the title and code should be still in English. For example, if the user speaks Chinese, the specific text of your answer should also be in Chinese.'',
     NL,
     ''Requirements: According to the context, fill in the following missing information, note that each sections are returned in Python code triple quote form seperatedly.'',
     NL,
     ''ATTENTION: Use '', [CHR 0x27], ''##'', [CHR 0x27], '' to SPLIT SECTIONS, not '',
     [CHR 0x27], ''#'', [CHR 0x27], ''. AND '', [CHR 0x27], ''## <SECTION_NAME>'', [CHR 0x27],
     '' SHOULD WRITE BEFORE the code and triple quote. Output carefully referenced "Format example" in format.'',
     NL,
     NL,
     ''## Language: Provide as Plain text, use the same language as the user requirement.'', NL,
     NL,
     ''## Original Requirements: Provide as Plain text, place the polished complete original requirements here'',
     NL,
     NL,
     ''## Product Goals: Provided as Python list[str], up to 3 clear, orthogonal product goals.'',
     NL,
     NL,
     ''## User Stories: Provided as Python list[str], up to 5 scenario-based user stories'', NL,
     NL,
     ''## Competitive Analysis: Provided as Python list[str], up to 7 competitive product analyses, consider as similar competitors as possible'',
     NL,
     NL,
     ''## Competitive Quadrant Chart: Use mermaid quadrantChart code syntax. up to 14 competitive products. Translation: Distribute these competitor scores evenly between 0 and 1, trying to conform to a normal distribution centered around 0.5 as much as possible.'',
     NL,
     NL,
     ''## Requirement Analysis: Provide as Plain text.'', NL,
     NL,
     ''## Requirement Pool: Provided as Python list[list[str], the parameters are requirement description, priority(P0/P1/P2), respectively, comply with PEP standards'',
     NL,
     NL,
     ''## UI Design draft: Provide as Plain text. Be simple. Describe the elements and functions, also provide a simple style description and layout description.'',
     NL,
     ''## Anything UNCLEAR: Provide as Plain text. Try to clarify it.'', NL]\<close>

definition MARKDOWN_PROMPT_TEMPLATE :: "string \<Rightarrow> string \<Rightarrow> string \<Rightarrow> string \<Rightarrow> string" where
  "MARKDOWN_PROMPT_TEMPLATE requirements search_information format_example pname =
     MARKDOWN_PROMPT_TEMPLATE_1 @ requirements @ MARKDOWN_PROMPT_TEMPLATE_2 @ search_information @ MARKDOWN_PROMPT_TEMPLATE_3 @ format_example @ MARKDOWN_PROMPT_TEMPLATE_4"

definition MARKDOWN_FORMAT_EXAMPLE_1 :: string where
  \<open>MARKDOWN_FORMAT_EXAMPLE_1 = concat
    [NL,
     ''---'', NL,
     ''## Original Requirements'', NL,
     ''The user ... '', NL,
     NL,
     ''## Product Goals'', NL,
     ''```python'', NL,
     ''['', NL,
     ''    "Create a ...",'', NL,
     '']'', NL,
     ''```'', NL,
     NL,
     ''## User Stories'', NL,
     ''```python'', NL,
     ''['', NL,
     ''    "As a user, ...",'', NL,
     '']'', NL,
     ''```'', NL,
     NL,
     ''## Competitive Analysis'', NL,
     ''```python'', NL,
     ''['', NL,
     ''    "Python Snake Game: ...",'', NL,
     '']'', NL,
     ''```'', NL,
     NL,
     ''## Competitive Quadrant Chart'', NL,
     ''```mermaid'', NL,
     ''quadrantChart'', NL,
     ''    title Reach and engagement of campaigns'', NL,
     ''    ...'', NL,
     ''    "Our Target Product": [0.6, 0.7]'', NL,
     ''```'', NL,
     NL,
     ''## Requirement Analysis'', NL,
     ''The product should be a ...'', NL,
     NL,
     ''## Requirement Pool'', NL,
     ''```python'', NL,
     ''['', NL,
     ''    ["End game ...", "P0"]'', NL,
     '']'', NL,
     ''```'', NL,
     NL,
     ''## UI Design draft'', NL,
     ''Give a basic function description, and a draft'', NL,
     NL,
     ''## Anything UNCLEAR'', NL,
     ''There are no unclear points.'', NL,
     ''---'', NL]\<close>

definition MARKDOWN_FORMAT_EXAMPLE :: "string \<Rightarrow> string" where
  "MARKDOWN_FORMAT_EXAMPLE pname =
     MARKDOWN_FORMAT_EXAMPLE_1"

subsection \<open>The action\<close>

text \<open>
  \<^verbatim>\<open>get_template(templates, format)\<close> looks the format up in the module's
  \<^verbatim>\<open>templates\<close> dict, whose keys are \<^verbatim>\<open>json\<close> and \<^verbatim>\<open>markdown\<close>,
  and raises \<^verbatim>\<open>ValueError\<close> for any other format.
\<close>

definition get_template ::
  "string \<Rightarrow> error + ((string \<Rightarrow> string \<Rightarrow> string \<Rightarrow> string \<Rightarrow> string) \<times> (string \<Rightarrow> string))" where
  "get_template fmt =
     (if fmt = ''json'' then Inr (JSON_PROMPT_TEMPLATE, JSON_FORMAT_EXAMPLE)
      else if fmt = ''markdown'' then Inr (MARKDOWN_PROMPT_TEMPLATE, MARKDOWN_FORMAT_EXAMPLE)
      else Inl ValueError)"

definition lift :: "error + 'a \<Rightarrow> 'a action" where
  "lift r = (case r of Inl e \<Rightarrow> raise e | Inr x \<Rightarrow> ret x)"

text \<open>\<^verbatim>\<open>str(x)\<close> of a configuration entry, as \<^verbatim>\<open>str.format\<close> renders it.\<close>

fun py_str :: "string option \<Rightarrow> string" where
  "py_str None = ''None''"
| "py_str (Some s) = s"

text \<open>\<^verbatim>\<open>CONFIG.project_name = Path(CONFIG.project_path).name\<close>; \<^verbatim>\<open>Path(None)\<close> raises.\<close>

definition name_from_path :: "unit action" where
  "name_from_path s =
     (case project_path s of
        None \<Rightarrow> raise TypeError s
      | Some p \<Rightarrow> ret () (s\<lparr>project_name := Some (path_name p)\<rparr>))"

text \<open>\<^verbatim>\<open>CONFIG.git_repo.rename_root(CONFIG.project_name)\<close>.\<close>

definition rename_root :: "unit action" where
  "rename_root s = emit (EvRenameRoot (py_str (project_name s))) s"

text \<open>Lines 455 to 461 of \<^verbatim>\<open>_rename_workspace\<close>: what follows the first \<^verbatim>\<open>if\<close>.\<close>

definition name_from_prd :: "env \<Rightarrow> prd_arg \<Rightarrow> unit action" where
  "name_from_prd E prd s =
     bind (if \<not> truthy (project_name s) then
             bind (case prd of
                     Structured out \<Rightarrow> ret (Project_Name (instruct_content out))
                   | RawText t \<Rightarrow> call (EvParseStr ''Project Name'' t) (parse_str E ''Project Name'' t))
               (\<lambda>ws_name s'. ret () (s'\<lparr>project_name := Some ws_name\<rparr>))
           else ret ())
       (\<lambda>_. rename_root) s"

definition rename_workspace :: "env \<Rightarrow> prd_arg \<Rightarrow> unit action" where
  "rename_workspace E prd s =
     (if truthy (project_path s) then
        (if \<not> truthy (project_name s) then name_from_path s
         else name_from_prd E prd s)
      else name_from_prd E prd s)"

definition is_bugfix :: "env \<Rightarrow> string \<Rightarrow> bool action" where
  "is_bugfix E c =
     bind (call (EvAsk (IS_BUGFIX_PROMPT c)) (aask E (IS_BUGFIX_PROMPT c)))
       (\<lambda>res. ret (py_in ''YES'' res))"

definition is_relative_to :: "env \<Rightarrow> Document \<Rightarrow> Document \<Rightarrow> bool action" where
  "is_relative_to E new_requirement_doc old_prd_doc =
     bind (call (EvAsk (IS_RELATIVE_PROMPT (content old_prd_doc) (content new_requirement_doc)))
                (aask E (IS_RELATIVE_PROMPT (content old_prd_doc) (content new_requirement_doc))))
       (\<lambda>res. ret (py_in ''YES'' res))"

definition ask_v1 :: "env \<Rightarrow> string \<Rightarrow> ActionOutput action" where
  "ask_v1 E prompt =
     call (EvAskV1 prompt (prompt_format E)) (aask_v1 E prompt (prompt_format E))"

definition run_new_requirement :: "env \<Rightarrow> string list \<Rightarrow> ActionOutput action" where
  "run_new_requirement E requirements =
     bind (lift (get_template (prompt_format E)))
       (\<lambda>(prompt_template, format_example) s.
          (let info = ''### Search Results'' @ NL @ sas_result E @ NL @ NL
                        @ ''### Search Summary'' @ NL @ [];
               pname = (if truthy (project_name s) then py_str (project_name s) else []);
               prompt = prompt_template (str_of_list E requirements) info
                          (format_example pname) pname
           in bind (ask_v1 E prompt)
                (\<lambda>prd. bind (rename_workspace E (Structured prd)) (\<lambda>_. ret prd)) s))"

definition merge :: "env \<Rightarrow> Document \<Rightarrow> Document \<Rightarrow> Document action" where
  "merge E new_requirement_doc prd_doc =
     bind (\<lambda>s. if \<not> truthy (project_name s) then name_from_path s else ret () s)
       (\<lambda>_ s.
          bind (ask_v1 E (MERGE_PROMPT (content new_requirement_doc) (content prd_doc)
                            (py_str (project_name s))))
            (\<lambda>prd. bind (rename_workspace E (Structured prd))
               (\<lambda>_. ret (prd_doc\<lparr>content := instruct_json E (instruct_content prd)\<rparr>))) s)"

text \<open>
  \<^verbatim>\<open>m.get\<close> needs \<^verbatim>\<open>m\<close> to be a dict; the keys of a decoded object are distinct.
\<close>

definition save_competitive_analysis :: "env \<Rightarrow> Document \<Rightarrow> unit action" where
  "save_competitive_analysis E prd_doc =
     bind (lift (json_loads E (content prd_doc)))
       (\<lambda>m. case m of
               JObj kvs \<Rightarrow>
                 (case map_of kvs ''Competitive Quadrant Chart'' of
                    None \<Rightarrow> ret ()
                  | Some quadrant_chart \<Rightarrow>
                      if \<not> json_truthy quadrant_chart then ret ()
                      else bind (lift (analysis_pathname E (filename prd_doc)))
                             (\<lambda>pathname.
                                bind (if \<not> parent_exists E pathname
                                      then call_unit (EvMkdir pathname) (mkdir_parent E pathname)
                                      else ret ())
                                  (\<lambda>_. call_unit (EvMermaid quadrant_chart pathname)
                                          (mermaid_to_file E quadrant_chart pathname))))
             | _ \<Rightarrow> raise AttributeError)"

definition save_pdf :: "env \<Rightarrow> Document \<Rightarrow> unit action" where
  "save_pdf E prd_doc = call_unit (EvSaveAs prd_doc) (save_as E prd_doc)"

text \<open>Lines 425 to 428 of \<^verbatim>\<open>_update_prd\<close>: save, diagram, export, return.\<close>

definition save_new_prd :: "env \<Rightarrow> Document \<Rightarrow> Document option action" where
  "save_new_prd E new_prd_doc =
     bind (prds_save (filename new_prd_doc) (content new_prd_doc))
       (\<lambda>_. bind (save_competitive_analysis E new_prd_doc)
          (\<lambda>_. bind (save_pdf E new_prd_doc)
             (\<lambda>_. ret (Some new_prd_doc))))"

definition update_prd :: "env \<Rightarrow> Document \<Rightarrow> Document option \<Rightarrow> Document option action" where
  "update_prd E requirement_doc prd_doc =
     (case prd_doc of
        None \<Rightarrow>
          bind (run_new_requirement E [content requirement_doc])
            (\<lambda>prd. bind (\<lambda>s. call EvNewFilename (Inr (new_filename E (generated s))) s)
               (\<lambda>fn. save_new_prd E
                  \<lparr>root_path = PRDS_FILE_REPO E, filename = fn @ ''.json'',
                   content = instruct_json E (instruct_content prd)\<rparr>))
      | Some d \<Rightarrow>
          bind (is_relative_to E requirement_doc d)
            (\<lambda>related. if related then bind (merge E requirement_doc d) (save_new_prd E)
                        else ret None))"

text \<open>
  The \<^verbatim>\<open>for\<close> loop of \<^verbatim>\<open>run\<close> over what \<^verbatim>\<open>get_all\<close> returned. Every
  element goes to \<^verbatim>\<open>_update_prd\<close> as it is, also a \<^verbatim>\<open>None\<close>.
\<close>

fun scan :: "env \<Rightarrow> Document \<Rightarrow> Document option list \<Rightarrow> Documents \<Rightarrow> Documents action" where
  "scan E requirement_doc [] change_files = ret change_files"
| "scan E requirement_doc (prd_doc # rest) change_files =
     bind (update_prd E requirement_doc prd_doc)
       (\<lambda>r. case r of
               None \<Rightarrow> scan E requirement_doc rest change_files
             | Some d \<Rightarrow> scan E requirement_doc rest (AList.update (filename d) d change_files))"

text \<open>Lines 357 to 368 of \<^verbatim>\<open>run\<close>: generate when nothing was rewritten, and return.\<close>

definition generate_if_empty :: "env \<Rightarrow> Document \<Rightarrow> Documents \<Rightarrow> run_result action" where
  "generate_if_empty E requirement_doc change_files =
     (if change_files = [] then
        bind (update_prd E requirement_doc None)
          (\<lambda>r. case r of
                  None \<Rightarrow> ret (ROutput change_files)
                | Some d \<Rightarrow> ret (ROutput (AList.update (filename d) d change_files)))
      else ret (ROutput change_files))"

definition run :: "env \<Rightarrow> run_result action" where
  "run E =
     bind (docs_get E (REQUIREMENT_FILENAME E))
       (\<lambda>r. case r of
               None \<Rightarrow> raise AttributeError
             | Some requirement_doc \<Rightarrow>
                 bind (is_bugfix E (content requirement_doc))
                   (\<lambda>bug.
                      if bug then
                        bind (docs_save (BUGFIX_FILENAME E) (content requirement_doc))
                          (\<lambda>_. bind (docs_save (REQUIREMENT_FILENAME E) [])
                             (\<lambda>_. ret (RMessage
                                \<lparr>msg_instruct_content = \<lparr>bf_filename = BUGFIX_FILENAME E\<rparr>,
                                 msg_role = profile E, msg_cause_by = ''FixBug'',
                                 msg_send_to = ''Alex''\<rparr>)))
                      else
                        bind (docs_delete (BUGFIX_FILENAME E))
                          (\<lambda>_. bind (prds_get_all E)
                             (\<lambda>prd_docs. bind (scan E requirement_doc prd_docs [])
                                (generate_if_empty E requirement_doc)))))"

subsection \<open>Vocabulary of the properties\<close>

text \<open>
  The requirement document \<^verbatim>\<open>run\<close> loads when the stored content is \<open>c\<close>, and the
  list \<^verbatim>\<open>get_all\<close> returns for the PRD repository of a state: a document for a
  file that can be read, \<open>None\<close> for one that cannot.
\<close>

definition requirement_doc :: "env \<Rightarrow> string \<Rightarrow> Document" where
  "requirement_doc E c =
     \<lparr>root_path = DOCS_FILE_REPO E, filename = REQUIREMENT_FILENAME E, content = c\<rparr>"

definition existing_prds :: "env \<Rightarrow> state \<Rightarrow> Document option list" where
  "existing_prds E s =
     map (\<lambda>(n, c). case c of
                      None \<Rightarrow> None
                    | Some t \<Rightarrow> Some \<lparr>root_path = PRDS_FILE_REPO E, filename = n, content = t\<rparr>)
         (prds_repo s)"

text \<open>
  The answer of the relevance classifier for a requirement text and an existing PRD:
  the model's response to the relevance prompt contains \<^verbatim>\<open>YES\<close>.
\<close>

definition related :: "env \<Rightarrow> string \<Rightarrow> Document \<Rightarrow> bool" where
  "related E c d =
     (case aask E (IS_RELATIVE_PROMPT (content d) c) of
        Inl e \<Rightarrow> False
      | Inr res \<Rightarrow> py_in ''YES'' res)"

text \<open>
  The state in which the loop of \<^verbatim>\<open>run\<close> starts when the requirement \<open>c\<close> is not
  a bug report: the requirement was read, the classifier asked, the stale bug report
  deleted and the PRD repository listed.
\<close>

definition scan_entry :: "env \<Rightarrow> string \<Rightarrow> state \<Rightarrow> state" where
  "scan_entry E c s =
     s\<lparr>docs_repo := AList.delete (BUGFIX_FILENAME E) (docs_repo s),
       trace := trace s @ [EvDocsGet (REQUIREMENT_FILENAME E), EvAsk (IS_BUGFIX_PROMPT c),
                           EvDocsDelete (BUGFIX_FILENAME E), EvPrdsGetAll]\<rparr>"

text \<open>
  \<open>d'\<close> is the result of merging the requirement \<open>c\<close> into \<open>d\<close>: same name and
  root, and the content is the encoded answer of the model to a merge prompt for \<open>d\<close>.
\<close>

definition merged_from :: "env \<Rightarrow> string \<Rightarrow> Document \<Rightarrow> Document \<Rightarrow> bool" where
  "merged_from E c d d' =
     (filename d' = filename d \<and> root_path d' = root_path d \<and>
      (\<exists>pn out. aask_v1 E (MERGE_PROMPT c (content d) pn) (prompt_format E) = Inr out \<and>
                content d' = instruct_json E (instruct_content out)))"

text \<open>
  The one file name under which \<^verbatim>\<open>_update_prd\<close> saves when it is handed
  \<open>prd_doc\<close> in the state \<open>s\<close>: the name of the document, or, for
  \<^verbatim>\<open>None\<close>, the next new file name.
\<close>

definition own_file :: "env \<Rightarrow> state \<Rightarrow> Document option \<Rightarrow> string" where
  "own_file E s prd_doc =
     (case prd_doc of
        None \<Rightarrow> new_filename E (generated s) @ ''.json''
      | Some d \<Rightarrow> filename d)"

subsection \<open>A concrete project\<close>

definition example_prd :: prd_fields where
  "example_prd =
     \<lparr>Language = ''en_us'', Original_Requirements = ''Add dark mode toggle to settings'',
      Project_Name = ''settings_app'', Product_Goals = [''Readable at night''],
      User_Stories = [''As a user, I can switch to a dark theme''],
      Competitive_Analysis = [], Competitive_Quadrant_Chart = ''quadrantChart'',
      Requirement_Analysis = ''A toggle in the settings page'',
      Requirement_Pool = [[''P0'', ''dark mode toggle'']],
      UI_Design_draft = ''A switch'', Anything_UNCLEAR = []\<rparr>"

definition example_output :: ActionOutput where
  "example_output = \<lparr>ao_content = ''[CONTENT]...[/CONTENT]'', instruct_content = example_prd\<rparr>"

text \<open>
  An environment in which every collaborator succeeds: the model answers \<^verbatim>\<open>NO\<close> to
  every classification and returns \<open>example_output\<close> for every PRD.
\<close>

definition example_env :: env where
  "example_env =
     \<lparr>aask = (\<lambda>prompt. Inr ''NO''),
      aask_v1 = (\<lambda>prompt fmt. Inr example_output),
      prompt_format = ''json'',
      profile = ''WritePRD'',
      REQUIREMENT_FILENAME = ''requirement.txt'',
      BUGFIX_FILENAME = ''bugfix.txt'',
      DOCS_FILE_REPO = ''docs'',
      PRDS_FILE_REPO = ''docs/prds'',
      new_filename = (\<lambda>k. ''20231205174500''),
      sas_result = [],
      str_of_list = concat,
      instruct_json = Project_Name,
      json_loads = (\<lambda>text. Inr (JObj [(''Competitive Quadrant Chart'', JStr ''quadrantChart'')])),
      analysis_pathname = (\<lambda>name. Inr (''resources/competitive_analysis/'' @ name)),
      parent_exists = (\<lambda>pathname. True),
      mkdir_parent = (\<lambda>pathname. None),
      mermaid_to_file = (\<lambda>code pathname. None),
      save_as = (\<lambda>doc. None),
      parse_str = (\<lambda>block text. Inr text)\<rparr>"

text \<open>A fresh workspace: a requirement, no PRD, nothing configured.\<close>

definition example_state :: state where
  "example_state =
     \<lparr>project_name = None, project_path = None,
      docs_repo = [(''requirement.txt'', ''Add dark mode toggle to settings'')],
      prds_repo = [], trace = []\<rparr>"

text \<open>An existing project with two PRDs, opened by its path.\<close>

definition project_state :: state where
  "project_state =
     \<lparr>project_name = None, project_path = Some ''/ws/settings_app'',
      docs_repo = [(''requirement.txt'', ''Add dark mode toggle to settings'')],
      prds_repo = [(''a.json'', Some ''PRD of the settings page''),
                   (''b.json'', Some ''PRD of the login page'')],
      trace = []\<rparr>"

text \<open>The same project when the file of the second PRD cannot be read.\<close>

definition damaged_state :: state where
  "damaged_state = project_state\<lparr>prds_repo := [(''a.json'', Some ''PRD of the settings page''),
                                               (''b.json'', None)]\<rparr>"

text \<open>The model finds the requirement related to every PRD whose text is \<open>old_prd\<close>.\<close>

definition related_to :: "string \<Rightarrow> env" where
  "related_to old_prd =
     example_env\<lparr>aask := (\<lambda>prompt.
        if prompt = IS_RELATIVE_PROMPT old_prd ''Add dark mode toggle to settings''
        then Inr ''YES, it is related'' else Inr ''NO'')\<rparr>"

text \<open>
  An event of the trace is a side effect that succeeded: the diagram renderer and the
  exporter returned without raising. A trace is fine when all its side effects succeeded.
\<close>

fun ok_event :: "env \<Rightarrow> event \<Rightarrow> bool" where
  "ok_event E (EvMermaid v p) = (mermaid_to_file E v p = None)"
| "ok_event E (EvSaveAs d) = (save_as E d = None)"
| "ok_event E ev = True"

definition side_effects_ok :: "env \<Rightarrow> state \<Rightarrow> bool" where
  "side_effects_ok E s = list_all (ok_event E) (trace s)"

text \<open>The model finds every PRD related to the requirement, which is not a bug report.\<close>

definition all_related :: env where
  "all_related =
     example_env\<lparr>aask := (\<lambda>prompt.
        if prompt = IS_BUGFIX_PROMPT ''Add dark mode toggle to settings''
        then Inr ''NO'' else Inr ''YES'')\<rparr>"

text \<open>The model finds every requirement to be a bug report.\<close>

definition always_yes :: env where
  "always_yes = example_env\<lparr>aask := (\<lambda>prompt. Inr ''YES'')\<rparr>"

text \<open>The diagram renderer is not installed.\<close>

definition render_fails :: env where
  "render_fails = example_env\<lparr>mermaid_to_file := (\<lambda>code pathname. Some (External ''mmdc not found''))\<rparr>"

text \<open>Every PRD is related, and no answer of the model to a merge prompt can be parsed.\<close>

definition merge_fails :: env where
  "merge_fails = all_related\<lparr>aask_v1 := (\<lambda>prompt fmt. Inl (External ''no [CONTENT] block''))\<rparr>"

text \<open>The encoded PRDs carry no competitive quadrant chart.\<close>

definition no_chart :: env where
  "no_chart = example_env\<lparr>json_loads := (\<lambda>text. Inr (JObj []))\<rparr>"

text \<open>
  Every PRD is related; the model's answer to the merge prompt of the settings page is a
  PRD, and its answer to any other merge prompt cannot be parsed.
\<close>

definition second_merge_fails :: env where
  "second_merge_fails =
     all_related\<lparr>aask_v1 := (\<lambda>prompt fmt.
        if prompt = MERGE_PROMPT ''Add dark mode toggle to settings''
                      ''PRD of the settings page'' ''settings_app''
        then Inr example_output else Inl (External ''no [CONTENT] block''))\<rparr>"

subsection \<open>Basic facts\<close>


lemmas monad_defs = bind_def ret_def raise_def emit_def call_def call_unit_def lift_def

lemma split_on_nonempty: "split_on c xs \<noteq> []"
  by (induction xs) (auto split: list.splits)

lemma split_on_no_sep: "c \<notin> set n \<Longrightarrow> split_on c n = [n]"
  by (induction n) auto

lemma split_on_append: "split_on c (d @ c # n) = split_on c d @ split_on c n"
  by (induction d) (auto split: list.splits simp: split_on_nonempty)

lemma path_name_last_segment:
  assumes "CHR ''/'' \<notin> set n" "n \<noteq> []" "n \<noteq> ''.''"
  shows "path_name (d @ ''/'' @ n) = n"
proof -
  have "path_parts (d @ ''/'' @ n) = path_parts d @ [n]"
    using assms by (simp add: path_parts_def split_on_append split_on_no_sep)
  then show ?thesis
    by (cases "path_parts d") (simp_all add: path_name_def)
qed

lemma bind_Inr:
  "bind m f s = (Inr y, s') \<Longrightarrow> \<exists>x s1. m s = (Inr x, s1) \<and> f x s1 = (Inr y, s')"
  by (auto simp: bind_def split: prod.splits sum.splits)

lemma bind_Inl: "m s = (Inl e, s1) \<Longrightarrow> bind m f s = (Inl e, s1)"
  by (simp add: bind_def)

lemma bind_step: "m s = (Inr x, s1) \<Longrightarrow> bind m f s = f x s1"
  by (simp add: bind_def)

lemma generated_bind:
  assumes "\<And>s. generated (snd (m s)) = generated s"
      and "\<And>x s. generated (snd (f x s)) = generated s"
  shows "generated (snd (bind m f s)) = generated s"
proof (cases "m s")
  case (Pair r s1)
  have "generated s1 = generated s" using assms(1)[of s] Pair by simp
  then show ?thesis using Pair assms(2) by (cases r) (simp_all add: bind_def)
qed

lemma generated_simple [simp]:
  "generated (snd (ret x s)) = generated s"
  "generated (snd (raise e s)) = generated s"
  "generated (snd (lift r s)) = generated s"
  "ev \<noteq> EvNewFilename \<Longrightarrow> generated (snd (emit ev s)) = generated s"
  "ev \<noteq> EvNewFilename \<Longrightarrow> generated (snd (call ev r' s)) = generated s"
  "ev \<noteq> EvNewFilename \<Longrightarrow> generated (snd (call_unit ev r'' s)) = generated s"
  by (auto simp: monad_defs generated_def split: sum.splits option.splits)

lemma generated_project_name [simp]: "generated (s\<lparr>project_name := n\<rparr>) = generated s"
  by (simp add: generated_def)

lemma generated_rename_workspace [simp]:
  "generated (snd (rename_workspace E prd s)) = generated s"
  by (auto simp: rename_workspace_def name_from_prd_def name_from_path_def rename_root_def
        monad_defs generated_def split: option.splits prd_arg.splits sum.splits)

lemma generated_ask_v1 [simp]: "generated (snd (ask_v1 E p s)) = generated s"
  by (simp add: ask_v1_def)

lemma generated_name_from_path [simp]: "generated (snd (name_from_path s)) = generated s"
  by (simp add: name_from_path_def ret_def raise_def split: option.splits)

lemma generated_merge [simp]: "generated (snd (merge E rd d s)) = generated s"
  unfolding merge_def
  by (intro generated_bind) simp_all

lemma generated_save_competitive_analysis [simp]:
  "generated (snd (save_competitive_analysis E d s)) = generated s"
  unfolding save_competitive_analysis_def
  by (intro generated_bind) (auto split: json.splits option.splits intro!: generated_bind)

lemma generated_prds_save [simp]: "generated (snd (prds_save n c s)) = generated s"
  by (simp add: prds_save_def emit_def generated_def)

lemma generated_save_pdf [simp]: "generated (snd (save_pdf E d s)) = generated s"
  by (simp add: save_pdf_def)

lemma generated_save_new_prd [simp]: "generated (snd (save_new_prd E d s)) = generated s"
  unfolding save_new_prd_def
  by (intro generated_bind) simp_all

lemma generated_is_relative_to [simp]: "generated (snd (is_relative_to E rd d s)) = generated s"
  unfolding is_relative_to_def by (intro generated_bind) simp_all


lemma save_new_prd_Inr: "save_new_prd E d s = (Inr r, s') \<Longrightarrow> r = Some d"
  unfolding save_new_prd_def
  by (auto dest!: bind_Inr simp: ret_def)

lemma merge_Inr:
  assumes "merge E rd d s = (Inr d', s')"
  shows "merged_from E (content rd) d d'"
  using assms unfolding merge_def ask_v1_def merged_from_def
  apply (auto dest!: bind_Inr simp: call_def ret_def raise_def emit_def split: sum.splits if_splits)
   apply blast+
  done









lemma run_unfold:
  assumes "map_of (docs_repo s) (REQUIREMENT_FILENAME E) = Some c"
  shows "run E s =
     (case aask E (IS_BUGFIX_PROMPT c) of
        Inl e \<Rightarrow> (Inl e, s\<lparr>trace := trace s @ [EvDocsGet (REQUIREMENT_FILENAME E),
                                               EvAsk (IS_BUGFIX_PROMPT c)]\<rparr>)
      | Inr res \<Rightarrow>
          if py_in ''YES'' res then
            (Inr (RMessage \<lparr>msg_instruct_content = \<lparr>bf_filename = BUGFIX_FILENAME E\<rparr>,
                            msg_role = profile E, msg_cause_by = ''FixBug'',
                            msg_send_to = ''Alex''\<rparr>),
             s\<lparr>docs_repo := AList.update (REQUIREMENT_FILENAME E) []
                               (AList.update (BUGFIX_FILENAME E) c (docs_repo s)),
               trace := trace s @ [EvDocsGet (REQUIREMENT_FILENAME E), EvAsk (IS_BUGFIX_PROMPT c),
                                   EvDocsSave (BUGFIX_FILENAME E) c,
                                   EvDocsSave (REQUIREMENT_FILENAME E) []]\<rparr>)
          else bind (scan E (requirement_doc E c) (existing_prds E s) [])
                 (generate_if_empty E (requirement_doc E c)) (scan_entry E c s))"
  using assms
  by (simp add: run_def docs_get_def is_bugfix_def docs_save_def docs_delete_def prds_get_all_def
        requirement_doc_def existing_prds_def scan_entry_def monad_defs split: sum.splits)

lemma generated_run_new_requirement [simp]:
  "generated (snd (run_new_requirement E rs s)) = generated s"
  unfolding run_new_requirement_def
  by (auto intro!: generated_bind simp: Let_def split: prod.splits)

lemma prds_repo_save_competitive_analysis [simp]:
  "prds_repo (snd (save_competitive_analysis E d s)) = prds_repo s"
  by (auto simp: save_competitive_analysis_def monad_defs split: sum.splits json.splits option.splits)

lemma prds_repo_save_pdf [simp]: "prds_repo (snd (save_pdf E d s)) = prds_repo s"
  by (auto simp: save_pdf_def monad_defs split: option.splits)

lemma save_new_prd_persisted:
  assumes "save_new_prd E d s = (Inr r, s')"
  shows "map_of (prds_repo s') (filename d) = Some (Some (content d))"
proof -
  from assms obtain s1 s2 where
    1: "prds_save (filename d) (content d) s = (Inr (), s1)" and
    2: "save_competitive_analysis E d s1 = (Inr (), s2)" and
    3: "save_pdf E d s2 = (Inr (), s')"
    unfolding save_new_prd_def by (auto dest!: bind_Inr simp: ret_def)
  from 1 have "map_of (prds_repo s1) (filename d) = Some (Some (content d))"
    by (auto simp: prds_save_def emit_def update_conv')
  moreover have "prds_repo s2 = prds_repo s1"
    using prds_repo_save_competitive_analysis[of E d s1] 2 by simp
  moreover have "prds_repo s' = prds_repo s2"
    using prds_repo_save_pdf[of E d s2] 3 by simp
  ultimately show ?thesis by simp
qed

lemma update_prd_None_Inr:
  assumes "update_prd E rd None s = (Inr r, s')"
  shows "\<exists>d. r = Some d \<and> filename d = new_filename E (generated s) @ ''.json''
            \<and> root_path d = PRDS_FILE_REPO E
            \<and> map_of (prds_repo s') (filename d) = Some (Some (content d))
            \<and> generated s' = Suc (generated s)"
proof -
  from assms obtain prd s1 fn s2 where
    1: "run_new_requirement E [content rd] s = (Inr prd, s1)" and
    2: "call EvNewFilename (Inr (new_filename E (generated s1))) s1 = (Inr fn, s2)" and
    3: "save_new_prd E \<lparr>root_path = PRDS_FILE_REPO E, filename = fn @ ''.json'',
                         content = instruct_json E (instruct_content prd)\<rparr> s2 = (Inr r, s')"
    unfolding update_prd_def by (auto dest!: bind_Inr)
  have g1: "generated s1 = generated s"
    using generated_run_new_requirement[of E "[content rd]" s] 1 by simp
  from 2 have fn: "fn = new_filename E (generated s1)" and g2: "generated s2 = Suc (generated s1)"
    by (auto simp: monad_defs generated_def)
  have g3: "generated s' = generated s2"
    using arg_cong[OF 3, of "\<lambda>x. generated (snd x)"] by simp
  from save_new_prd_Inr[OF 3] save_new_prd_persisted[OF 3] fn g1 g2 g3 show ?thesis by simp
qed


lemma generated_scan_entry [simp]: "generated (scan_entry E c s) = generated s"
  by (simp add: scan_entry_def generated_def)

lemma prds_repo_scan_entry [simp]: "prds_repo (scan_entry E c s) = prds_repo s"
  by (simp add: scan_entry_def)


lemma scan_append_fail:
  assumes "scan E rd pre cf s = (Inr cf1, s1)"
      and "update_prd E rd d s1 = (Inl e, s2)"
  shows "scan E rd (pre @ d # post) cf s = (Inl e, s2)"
  using assms
proof (induction pre arbitrary: cf s)
  case Nil
  then show ?case by (simp add: ret_def bind_Inl)
next
  case (Cons x pre)
  from Cons.prems(1) obtain r sx where
    u: "update_prd E rd x s = (Inr r, sx)" and
    k: "(case r of None \<Rightarrow> scan E rd pre cf
         | Some d' \<Rightarrow> scan E rd pre (AList.update (filename d') d' cf)) sx = (Inr cf1, s1)"
    by (auto dest!: bind_Inr)
  show ?case
  proof (cases r)
    case None
    with k Cons.IH[of cf sx] Cons.prems(2) u show ?thesis by (simp add: bind_step)
  next
    case (Some d')
    with k Cons.IH[of "AList.update (filename d') d' cf" sx] Cons.prems(2) u show ?thesis
      by (simp add: bind_step)
  qed
qed


lemma ok_bind_snd:
  assumes "\<And>s. side_effects_ok E s \<Longrightarrow> side_effects_ok E (snd (m s))"
      and "\<And>x s. side_effects_ok E s \<Longrightarrow> side_effects_ok E (snd (f x s))"
      and "side_effects_ok E s"
  shows "side_effects_ok E (snd (bind m f s))"
proof (cases "m s")
  case (Pair r s1)
  have "side_effects_ok E s1" using assms(1)[OF assms(3)] Pair by simp
  then show ?thesis using Pair assms(2) by (cases r) (simp_all add: bind_def)
qed

lemma ok_project_name [simp]: "side_effects_ok E (s\<lparr>project_name := n\<rparr>) = side_effects_ok E s"
  by (simp add: side_effects_ok_def)

lemma ok_rename_workspace:
  "side_effects_ok E s \<Longrightarrow> side_effects_ok E (snd (rename_workspace E prd s))"
  by (auto simp: rename_workspace_def name_from_prd_def name_from_path_def rename_root_def
        monad_defs side_effects_ok_def split: option.splits prd_arg.splits sum.splits)

lemma ok_ask_v1: "side_effects_ok E s \<Longrightarrow> side_effects_ok E (snd (ask_v1 E p s))"
  by (auto simp: ask_v1_def monad_defs side_effects_ok_def split: sum.splits)

lemma ok_name_from_path: "side_effects_ok E s \<Longrightarrow> side_effects_ok E (snd (name_from_path s))"
  by (auto simp: name_from_path_def monad_defs split: option.splits)

lemma ok_is_relative_to:
  "side_effects_ok E s \<Longrightarrow> side_effects_ok E (snd (is_relative_to E rd d s))"
  by (auto simp: is_relative_to_def monad_defs side_effects_ok_def split: sum.splits)

lemma ok_merge: "side_effects_ok E s \<Longrightarrow> side_effects_ok E (snd (merge E rd d s))"
  unfolding merge_def
  by (intro ok_bind_snd) (auto simp: ret_def ok_name_from_path ok_ask_v1 ok_rename_workspace)

lemma ok_run_new_requirement:
  "side_effects_ok E s \<Longrightarrow> side_effects_ok E (snd (run_new_requirement E rs s))"
  unfolding run_new_requirement_def
  by (auto intro!: ok_bind_snd simp: Let_def lift_def ret_def raise_def ok_ask_v1
        ok_rename_workspace split: prod.splits sum.splits)

lemma ok_save_competitive_analysis:
  "save_competitive_analysis E d s = (Inr r, s') \<Longrightarrow> side_effects_ok E s \<Longrightarrow> side_effects_ok E s'"
  by (auto simp: save_competitive_analysis_def monad_defs side_effects_ok_def
           split: sum.splits json.splits option.splits if_splits)

lemma ok_save_pdf:
  "save_pdf E d s = (Inr r, s') \<Longrightarrow> side_effects_ok E s \<Longrightarrow> side_effects_ok E s'"
  by (auto simp: save_pdf_def monad_defs side_effects_ok_def split: option.splits)

lemma ok_prds_save:
  "prds_save n c s = (r, s') \<Longrightarrow> side_effects_ok E s \<Longrightarrow> side_effects_ok E s'"
  by (auto simp: prds_save_def monad_defs side_effects_ok_def)

lemma save_new_prd_steps:
  assumes "save_new_prd E d s = (Inr r, s')"
  shows "\<exists>s1 s2. prds_save (filename d) (content d) s = (Inr (), s1)
               \<and> save_competitive_analysis E d s1 = (Inr (), s2)
               \<and> save_pdf E d s2 = (Inr (), s')"
  using assms unfolding save_new_prd_def by (auto dest!: bind_Inr simp: ret_def)

lemma ok_save_new_prd:
  assumes "save_new_prd E d s = (Inr r, s')" "side_effects_ok E s"
  shows "side_effects_ok E s'"
proof -
  from save_new_prd_steps[OF assms(1)] obtain s1 s2 where
    1: "prds_save (filename d) (content d) s = (Inr (), s1)" and
    2: "save_competitive_analysis E d s1 = (Inr (), s2)" and
    3: "save_pdf E d s2 = (Inr (), s')" by blast
  from ok_prds_save[OF 1 assms(2)] ok_save_competitive_analysis[OF 2] ok_save_pdf[OF 3]
  show ?thesis by blast
qed

lemma save_new_prd_exports:
  assumes "save_new_prd E d s = (Inr r, s')"
  shows "EvSaveAs d \<in> set (trace s')"
proof -
  from save_new_prd_steps[OF assms] obtain s2 where "save_pdf E d s2 = (Inr (), s')" by blast
  then show ?thesis by (auto simp: save_pdf_def monad_defs split: option.splits)
qed

lemma ok_update_prd:
  assumes "update_prd E rd x s = (Inr r, s')" "side_effects_ok E s"
  shows "side_effects_ok E s'"
proof (cases x)
  case None
  with assms(1) obtain prd s1 fn s2 D where
    1: "run_new_requirement E [content rd] s = (Inr prd, s1)" and
    2: "call EvNewFilename (Inr (new_filename E (generated s1))) s1 = (Inr fn, s2)" and
    3: "save_new_prd E D s2 = (Inr r, s')"
    unfolding update_prd_def by (auto dest!: bind_Inr)
  have "side_effects_ok E s1"
    using ok_run_new_requirement[OF assms(2), of "[content rd]"] 1 by simp
  with 2 have "side_effects_ok E s2" by (auto simp: monad_defs side_effects_ok_def)
  with ok_save_new_prd[OF 3] show ?thesis .
next
  case (Some d)
  with assms(1) obtain b s1 where
    1: "is_relative_to E rd d s = (Inr b, s1)" and
    2: "(if b then bind (merge E rd d) (save_new_prd E) else ret None) s1 = (Inr r, s')"
    unfolding update_prd_def by (auto dest!: bind_Inr)
  have s1: "side_effects_ok E s1"
    using ok_is_relative_to[OF assms(2), of rd d] 1 by simp
  show ?thesis
  proof (cases b)
    case True
    with 2 obtain d' s2 where
      3: "merge E rd d s1 = (Inr d', s2)" and 4: "save_new_prd E d' s2 = (Inr r, s')"
      by (auto dest!: bind_Inr)
    have "side_effects_ok E s2" using ok_merge[OF s1, of rd d] 3 by simp
    with ok_save_new_prd[OF 4] show ?thesis .
  next
    case False
    with 2 s1 show ?thesis by (simp add: ret_def)
  qed
qed

lemma ok_scan:
  assumes "scan E rd ds cf s = (Inr cf', s')" "side_effects_ok E s"
  shows "side_effects_ok E s'"
  using assms
proof (induction ds arbitrary: cf s)
  case Nil
  then show ?case by (simp add: ret_def)
next
  case (Cons d ds)
  from Cons.prems(1) obtain r s1 where
    u: "update_prd E rd d s = (Inr r, s1)" and
    k: "(case r of None \<Rightarrow> scan E rd ds cf
         | Some d' \<Rightarrow> scan E rd ds (AList.update (filename d') d' cf)) s1 = (Inr cf', s')"
    by (auto dest!: bind_Inr)
  from ok_update_prd[OF u Cons.prems(2)] k Cons.IH show ?case
    by (cases r) auto
qed

lemma ok_generate_if_empty:
  assumes "generate_if_empty E rd cf s = (Inr r, s')" "side_effects_ok E s"
  shows "side_effects_ok E s'"
  using assms ok_update_prd[of E rd None s]
  by (auto simp: generate_if_empty_def ret_def dest!: bind_Inr split: if_splits option.splits)

lemma ok_run:
  assumes "fst (run E s) = Inr r" "side_effects_ok E s"
  shows "side_effects_ok E (snd (run E s))"
proof (cases "map_of (docs_repo s) (REQUIREMENT_FILENAME E)")
  case None
  then have "fst (run E s) = Inl AttributeError"
    by (simp add: run_def docs_get_def monad_defs)
  with assms(1) show ?thesis by simp
next
  case (Some c)
  note un = run_unfold[OF Some]
  show ?thesis
  proof (cases "aask E (IS_BUGFIX_PROMPT c)")
    case (Inl e)
    with un assms(1) show ?thesis by simp
  next
    case (Inr res)
    show ?thesis
    proof (cases "py_in ''YES'' res")
      case True
      with un Inr assms(2) show ?thesis by (simp add: side_effects_ok_def)
    next
      case False
      let ?k = "bind (scan E (requirement_doc E c) (existing_prds E s) [])
                  (generate_if_empty E (requirement_doc E c)) (scan_entry E c s)"
      from un Inr False have eq: "run E s = ?k" by simp
      with assms(1) have "?k = (Inr r, snd (run E s))" by (metis prod.collapse)
      from bind_Inr[OF this] obtain cf0 s1 where
        sc: "scan E (requirement_doc E c) (existing_prds E s) [] (scan_entry E c s) = (Inr cf0, s1)" and
        ge: "generate_if_empty E (requirement_doc E c) cf0 s1 = (Inr r, snd (run E s))" by blast
      have "side_effects_ok E (scan_entry E c s)"
        using assms(2) by (simp add: scan_entry_def side_effects_ok_def)
      from ok_generate_if_empty[OF ge ok_scan[OF sc this]] show ?thesis .
    qed
  qed
qed

lemma skip_chart:
  assumes "json_loads E (content d) = Inr (JObj kvs)"
      and "case map_of kvs ''Competitive Quadrant Chart'' of None \<Rightarrow> True
           | Some v \<Rightarrow> \<not> json_truthy v"
  shows "save_competitive_analysis E d s = (Inr (), s)"
  using assms by (auto simp: save_competitive_analysis_def monad_defs split: option.splits)


text \<open>What the steps of \<^verbatim>\<open>_update_prd\<close> do to the PRD repository.\<close>

lemma prds_repo_bind:
  assumes "\<And>s. prds_repo (snd (m s)) = prds_repo s"
      and "\<And>x s. prds_repo (snd (f x s)) = prds_repo s"
  shows "prds_repo (snd (bind m f s)) = prds_repo s"
proof (cases "m s")
  case (Pair r s1)
  have "prds_repo s1 = prds_repo s" using assms(1)[of s] Pair by simp
  then show ?thesis using Pair assms(2) by (cases r) (simp_all add: bind_def)
qed

lemma prds_repo_simple [simp]:
  "prds_repo (snd (ret x s)) = prds_repo s"
  "prds_repo (snd (raise e s)) = prds_repo s"
  "prds_repo (snd (lift r s)) = prds_repo s"
  "prds_repo (snd (emit ev s)) = prds_repo s"
  "prds_repo (snd (call ev r' s)) = prds_repo s"
  "prds_repo (snd (call_unit ev r'' s)) = prds_repo s"
  by (auto simp: monad_defs split: sum.splits option.splits)

lemma prds_repo_rename_workspace [simp]:
  "prds_repo (snd (rename_workspace E prd s)) = prds_repo s"
  by (auto simp: rename_workspace_def name_from_prd_def name_from_path_def rename_root_def
        monad_defs split: option.splits prd_arg.splits sum.splits)

lemma prds_repo_ask_v1 [simp]: "prds_repo (snd (ask_v1 E p s)) = prds_repo s"
  by (simp add: ask_v1_def)

lemma prds_repo_name_from_path [simp]: "prds_repo (snd (name_from_path s)) = prds_repo s"
  by (simp add: name_from_path_def ret_def raise_def split: option.splits)

lemma prds_repo_merge [simp]: "prds_repo (snd (merge E rd d s)) = prds_repo s"
  unfolding merge_def
  by (intro prds_repo_bind) simp_all

lemma prds_repo_is_relative_to [simp]:
  "prds_repo (snd (is_relative_to E rd d s)) = prds_repo s"
  unfolding is_relative_to_def by (intro prds_repo_bind) simp_all

lemma prds_repo_run_new_requirement [simp]:
  "prds_repo (snd (run_new_requirement E rs s)) = prds_repo s"
  unfolding run_new_requirement_def
  by (auto intro!: prds_repo_bind simp: Let_def split: prod.splits)

lemma prds_repo_save_new_prd:
  "prds_repo (snd (save_new_prd E d s)) =
     AList.update (filename d) (Some (content d)) (prds_repo s)"
proof -
  let ?s1 = "s\<lparr>prds_repo := AList.update (filename d) (Some (content d)) (prds_repo s),
               trace := trace s @ [EvPrdsSave (filename d) (content d)]\<rparr>"
  have "prds_save (filename d) (content d) s = (Inr (), ?s1)"
    by (simp add: prds_save_def emit_def)
  then have "save_new_prd E d s =
      bind (save_competitive_analysis E d) (\<lambda>_. bind (save_pdf E d) (\<lambda>_. ret (Some d))) ?s1"
    by (simp add: save_new_prd_def bind_step)
  moreover have "prds_repo (snd (bind (save_competitive_analysis E d)
                   (\<lambda>_. bind (save_pdf E d) (\<lambda>_. ret (Some d))) ?s1)) = prds_repo ?s1"
    by (intro prds_repo_bind) simp_all
  ultimately show ?thesis by simp
qed

lemma merge_filename: "merge E rd d s = (Inr d', s') \<Longrightarrow> filename d' = filename d"
  by (drule merge_Inr) (simp add: merged_from_def)

lemma update_prd_writes:
  "prds_repo (snd (update_prd E rd x s)) = prds_repo s
   \<or> (\<exists>c. prds_repo (snd (update_prd E rd x s))
            = AList.update (own_file E s x) (Some c) (prds_repo s))"
proof (cases x)
  case None
  obtain ra sa where a: "run_new_requirement E [content rd] s = (ra, sa)"
    by (cases "run_new_requirement E [content rd] s")
  have pa: "prds_repo sa = prds_repo s"
    using prds_repo_run_new_requirement[of E "[content rd]" s] a by simp
  have ga: "generated sa = generated s"
    using generated_run_new_requirement[of E "[content rd]" s] a by simp
  show ?thesis
  proof (cases ra)
    case (Inl e)
    with a None pa show ?thesis by (simp add: update_prd_def bind_def)
  next
    case (Inr prd)
    let ?sb = "sa\<lparr>trace := trace sa @ [EvNewFilename]\<rparr>"
    let ?D = "\<lparr>root_path = PRDS_FILE_REPO E, filename = new_filename E (generated sa) @ ''.json'',
               content = instruct_json E (instruct_content prd)\<rparr>"
    have "update_prd E rd x s = save_new_prd E ?D ?sb"
      using a None Inr by (simp add: update_prd_def monad_defs)
    then show ?thesis
      using prds_repo_save_new_prd[of E ?D ?sb] pa ga None by (auto simp: own_file_def)
  qed
next
  case (Some d)
  obtain ra sa where a: "is_relative_to E rd d s = (ra, sa)"
    by (cases "is_relative_to E rd d s")
  have pa: "prds_repo sa = prds_repo s"
    using prds_repo_is_relative_to[of E rd d s] a by simp
  show ?thesis
  proof (cases ra)
    case (Inl e)
    with a Some pa show ?thesis by (simp add: update_prd_def bind_def)
  next
    case (Inr b)
    show ?thesis
    proof (cases b)
      case False
      with a Some Inr pa show ?thesis by (simp add: update_prd_def bind_def ret_def)
    next
      case True
      obtain rb sb where b: "merge E rd d sa = (rb, sb)" by (cases "merge E rd d sa")
      have pb: "prds_repo sb = prds_repo s"
        using prds_repo_merge[of E rd d sa] b pa by simp
      show ?thesis
      proof (cases rb)
        case (Inl e)
        with a b Some Inr True pb show ?thesis by (simp add: update_prd_def bind_def)
      next
        case (Inr d')
        have "update_prd E rd x s = save_new_prd E d' sb"
          using a b Some \<open>ra = Inr b\<close> True Inr by (simp add: update_prd_def bind_def)
        moreover have "filename d' = filename d" using merge_filename b Inr by blast
        ultimately show ?thesis
          using prds_repo_save_new_prd[of E d' sb] pb Some by (auto simp: own_file_def)
      qed
    qed
  qed
qed

lemma update_prd_frame:
  assumes "k \<noteq> own_file E s x"
  shows "map_of (prds_repo (snd (update_prd E rd x s))) k = map_of (prds_repo s) k"
  using update_prd_writes[of E rd x s] assms by (auto simp: update_conv')

lemma update_prd_Inr:
  assumes "update_prd E rd x s = (Inr r, s')"
  shows "case r of
           None \<Rightarrow> prds_repo s' = prds_repo s
         | Some d' \<Rightarrow> filename d' = own_file E s x
                      \<and> map_of (prds_repo s') (filename d') = Some (Some (content d'))"
proof (cases x)
  case None
  with update_prd_None_Inr[of E rd s r s'] assms show ?thesis
    by (auto simp: own_file_def)
next
  case (Some d)
  with assms obtain b s1 where
    1: "is_relative_to E rd d s = (Inr b, s1)" and
    2: "(if b then bind (merge E rd d) (save_new_prd E) else ret None) s1 = (Inr r, s')"
    unfolding update_prd_def by (auto dest!: bind_Inr)
  have p1: "prds_repo s1 = prds_repo s"
    using prds_repo_is_relative_to[of E rd d s] 1 by simp
  show ?thesis
  proof (cases b)
    case False
    with 2 p1 show ?thesis by (simp add: ret_def)
  next
    case True
    with 2 obtain d' s2 where
      3: "merge E rd d s1 = (Inr d', s2)" and 4: "save_new_prd E d' s2 = (Inr r, s')"
      by (auto dest!: bind_Inr)
    from save_new_prd_Inr[OF 4] save_new_prd_persisted[OF 4] merge_filename[OF 3] Some
    show ?thesis by (simp add: own_file_def)
  qed
qed

lemma scan_stored:
  assumes "scan E rd xs cf s = (Inr cf', s')"
      and "\<forall>k d. map_of cf k = Some d \<longrightarrow> map_of (prds_repo s) k = Some (Some (content d))"
  shows "\<forall>k d. map_of cf' k = Some d \<longrightarrow> map_of (prds_repo s') k = Some (Some (content d))"
  using assms
proof (induction xs arbitrary: cf s)
  case Nil
  then show ?case by (simp add: ret_def)
next
  case (Cons x xs)
  from Cons.prems(1) obtain r s1 where
    u: "update_prd E rd x s = (Inr r, s1)" and
    k: "(case r of None \<Rightarrow> scan E rd xs cf
         | Some d' \<Rightarrow> scan E rd xs (AList.update (filename d') d' cf)) s1 = (Inr cf', s')"
    by (auto dest!: bind_Inr)
  show ?case
  proof (cases r)
    case None
    with update_prd_Inr[OF u] have "prds_repo s1 = prds_repo s" by simp
    with Cons.prems(2) have
      "\<forall>k d. map_of cf k = Some d \<longrightarrow> map_of (prds_repo s1) k = Some (Some (content d))"
      by simp
    with k None Cons.IH[of cf s1] show ?thesis by simp
  next
    case (Some d')
    with update_prd_Inr[OF u] have
      f: "filename d' = own_file E s x" and
      p: "map_of (prds_repo s1) (filename d') = Some (Some (content d'))" by auto
    have "\<And>k. k \<noteq> filename d' \<Longrightarrow> map_of (prds_repo s1) k = map_of (prds_repo s) k"
      using update_prd_frame[of _ E s x rd] u f by simp
    with Cons.prems(2) p have
      "\<forall>k d. map_of (AList.update (filename d') d' cf) k = Some d
                \<longrightarrow> map_of (prds_repo s1) k = Some (Some (content d))"
      by (auto simp: update_conv')
    with k Some Cons.IH[of "AList.update (filename d') d' cf" s1] show ?thesis by simp
  qed
qed



subsection \<open>Evaluating the concrete project\<close>

lemma example_prompts_differ [simp]:
  "IS_RELATIVE_PROMPT a ''Add dark mode toggle to settings''
     \<noteq> IS_BUGFIX_PROMPT ''Add dark mode toggle to settings''"
  "IS_BUGFIX_PROMPT ''Add dark mode toggle to settings''
     \<noteq> IS_RELATIVE_PROMPT a ''Add dark mode toggle to settings''"
  by (simp_all add: IS_RELATIVE_PROMPT_def IS_BUGFIX_PROMPT_def IS_RELATIVE_PROMPT_1_def
        IS_BUGFIX_PROMPT_1_def NL_def)

lemma IS_RELATIVE_PROMPT_inj [simp]:
  "IS_RELATIVE_PROMPT a r = IS_RELATIVE_PROMPT b r \<longleftrightarrow> a = b"
  by (simp add: IS_RELATIVE_PROMPT_def)

lemma MERGE_PROMPT_inj [simp]:
  "MERGE_PROMPT c a n = MERGE_PROMPT c b n \<longleftrightarrow> a = b"
  by (simp add: MERGE_PROMPT_def)

lemmas run_defs =
  run_def docs_get_def is_bugfix_def docs_save_def docs_delete_def prds_get_all_def prds_save_def
  update_prd_def is_relative_to_def merge_def ask_v1_def rename_workspace_def name_from_prd_def
  name_from_path_def rename_root_def save_new_prd_def save_competitive_analysis_def save_pdf_def
  generate_if_empty_def run_new_requirement_def get_template_def monad_defs
  path_name_def path_parts_def

lemmas example_defs =
  example_env_def example_state_def project_state_def example_output_def example_prd_def
  related_to_def all_related_def always_yes_def render_fails_def merge_fails_def
  no_chart_def second_merge_fails_def damaged_state_def



section \<open>The properties\<close>

subsection \<open>Routing a bug report\<close>

text \<open>
  C1. When the stored requirement is judged a bug report (the model's answer to the bug
  prompt contains \<^verbatim>\<open>YES\<close>), \<^verbatim>\<open>run\<close> returns exactly the message carrying the
  \<^verbatim>\<open>BugFixContext\<close>, the stored content of the requirement document becomes the
  empty string, and the PRD repository is neither read nor written: it is unchanged and
  the calls of the run are the four listed, none of them on the PRD repository.
\<close>

theorem run_bug_report:
  assumes "map_of (docs_repo s) (REQUIREMENT_FILENAME E) = Some c"
      and "aask E (IS_BUGFIX_PROMPT c) = Inr res"
      and "py_in ''YES'' res"
  shows "fst (run E s) =
           Inr (RMessage \<lparr>msg_instruct_content = \<lparr>bf_filename = BUGFIX_FILENAME E\<rparr>,
                          msg_role = profile E, msg_cause_by = ''FixBug'',
                          msg_send_to = ''Alex''\<rparr>)
       \<and> map_of (docs_repo (snd (run E s))) (REQUIREMENT_FILENAME E) = Some []
       \<and> prds_repo (snd (run E s)) = prds_repo s
       \<and> trace (snd (run E s)) =
           trace s @ [EvDocsGet (REQUIREMENT_FILENAME E), EvAsk (IS_BUGFIX_PROMPT c),
                      EvDocsSave (BUGFIX_FILENAME E) c, EvDocsSave (REQUIREMENT_FILENAME E) []]"
  using assms by (simp add: run_unfold update_conv')

theorem run_bug_report_witness:
  "map_of (docs_repo example_state) (REQUIREMENT_FILENAME always_yes)
      = Some ''Add dark mode toggle to settings''
   \<and> aask always_yes (IS_BUGFIX_PROMPT ''Add dark mode toggle to settings'') = Inr ''YES''
   \<and> py_in ''YES'' ''YES''
   \<and> fst (run always_yes example_state) =
       Inr (RMessage \<lparr>msg_instruct_content = \<lparr>bf_filename = ''bugfix.txt''\<rparr>,
                      msg_role = ''WritePRD'', msg_cause_by = ''FixBug'', msg_send_to = ''Alex''\<rparr>)
   \<and> map_of (docs_repo (snd (run always_yes example_state))) ''requirement.txt'' = Some []
   \<and> prds_repo (snd (run always_yes example_state)) = []"
  using run_bug_report[of example_state always_yes "''Add dark mode toggle to settings''" "''YES''"]
  by (simp add: example_defs)

subsection \<open>Merging and generating\<close>







subsection \<open>Resolving the project name\<close>

text \<open>
  C4, as the code has it. When a project path and a project name are both bound,
  \<^verbatim>\<open>_rename_workspace\<close> leaves the name and the path unchanged, and it does invoke
  the workspace rename, once, with the name that is already bound.
\<close>

theorem rename_workspace_both_bound:
  assumes "project_path s = Some p" and "p \<noteq> []"
      and "project_name s = Some n" and "n \<noteq> []"
  shows "rename_workspace E prd s = (Inr (), s\<lparr>trace := trace s @ [EvRenameRoot n]\<rparr>)"
  using assms by (simp add: rename_workspace_def name_from_prd_def rename_root_def monad_defs)

theorem rename_workspace_both_bound_witness:
  "project_path (project_state\<lparr>project_name := Some ''old_app''\<rparr>) = Some ''/ws/settings_app''
   \<and> project_name (project_state\<lparr>project_name := Some ''old_app''\<rparr>) = Some ''old_app''
   \<and> rename_workspace example_env (Structured example_output)
        (project_state\<lparr>project_name := Some ''old_app''\<rparr>) =
      (Inr (), project_state\<lparr>project_name := Some ''old_app'',
                              trace := [EvRenameRoot ''old_app'']\<rparr>)"
  using rename_workspace_both_bound[of "project_state\<lparr>project_name := Some ''old_app''\<rparr>"
          "''/ws/settings_app''" "''old_app''" example_env "Structured example_output"]
  by (simp add: project_state_def)

text \<open>
  C4 as stated fails: with the path \<^verbatim>\<open>/ws/old_app\<close> and the name
  \<^verbatim>\<open>old_app\<close> both bound, the call is not a no-op: the workspace rename is invoked.
\<close>

theorem rename_workspace_both_bound_counterexample:
  "trace (snd (rename_workspace example_env (Structured example_output)
      (example_state\<lparr>project_path := Some ''/ws/old_app'', project_name := Some ''old_app''\<rparr>)))
   = [EvRenameRoot ''old_app'']
   \<and> rename_workspace example_env (Structured example_output)
      (example_state\<lparr>project_path := Some ''/ws/old_app'', project_name := Some ''old_app''\<rparr>)
   \<noteq> (Inr (), example_state\<lparr>project_path := Some ''/ws/old_app'',
                               project_name := Some ''old_app''\<rparr>)"
  by (simp add: rename_workspace_def name_from_prd_def name_from_path_def rename_root_def
        monad_defs example_state_def)

text \<open>
  C5. When a project path is bound and no project name is bound,
  \<^verbatim>\<open>_rename_workspace\<close> binds the name to the last segment of the path and returns:
  the result is the same for every candidate PRD and every environment, so the PRD's
  project name is not consulted, and the trace is unchanged, so the workspace rename is
  not invoked.
\<close>

theorem rename_workspace_path_only:
  assumes "project_path s = Some p" and "p \<noteq> []"
      and "\<not> truthy (project_name s)"
  shows "rename_workspace E prd s = (Inr (), s\<lparr>project_name := Some (path_name p)\<rparr>)"
  using assms by (simp add: rename_workspace_def name_from_path_def monad_defs)

theorem rename_workspace_path_only_witness:
  "project_path project_state = Some ''/ws/settings_app''
   \<and> \<not> truthy (project_name project_state)
   \<and> rename_workspace example_env (Structured example_output) project_state =
      (Inr (), project_state\<lparr>project_name := Some ''settings_app''\<rparr>)"
  using rename_workspace_path_only[of project_state "''/ws/settings_app''" example_env
          "Structured example_output"]
  by (simp add: project_state_def path_name_def path_parts_def)




subsection \<open>Classifying an empty requirement\<close>

text \<open>
  C7, as the code has it. For the empty requirement text \<^verbatim>\<open>_is_bugfix\<close> has no
  special case: it asks the model once, with the bug prompt built around the empty text,
  and returns true exactly when the answer contains \<^verbatim>\<open>YES\<close>; an exception of the
  model is raised.
\<close>

theorem is_bugfix_empty:
  "is_bugfix E [] s =
     (case aask E (IS_BUGFIX_PROMPT []) of
        Inl e \<Rightarrow> Inl e
      | Inr res \<Rightarrow> Inr (py_in ''YES'' res),
      s\<lparr>trace := trace s @ [EvAsk (IS_BUGFIX_PROMPT [])]\<rparr>)"
  by (simp add: is_bugfix_def monad_defs split: sum.splits)

theorem is_bugfix_empty_witness:
  "is_bugfix example_env [] example_state =
     (Inr False, example_state\<lparr>trace := [EvAsk (IS_BUGFIX_PROMPT [])]\<rparr>)"
  using is_bugfix_empty[of example_env example_state]
  by (simp add: example_defs)

text \<open>
  C7 as stated fails: with a model that answers \<^verbatim>\<open>YES\<close>, the empty text is
  classified as a bug report, and the model was asked.
\<close>

theorem is_bugfix_empty_counterexample:
  "is_bugfix always_yes [] example_state =
     (Inr True, example_state\<lparr>trace := [EvAsk (IS_BUGFIX_PROMPT [])]\<rparr>)"
  by (simp add: is_bugfix_def monad_defs example_defs)

subsection \<open>Failures\<close>

text \<open>
  C8, as the code has it. The loop has no handler: when the requirement is not a bug
  report, the elements before \<open>x\<close> were processed and processing \<open>x\<close> raises, the
  run raises that exception in the state reached at the raise. No later PRD is evaluated
  and no change set is returned. The PRD repository is not rolled back: every document
  that the earlier iterations recorded in the change set is still stored, with its new
  content, under every file name other than the one the failing iteration itself saves
  to.
\<close>

theorem merge_failure_aborts_run:
  assumes "map_of (docs_repo s) (REQUIREMENT_FILENAME E) = Some c"
      and "aask E (IS_BUGFIX_PROMPT c) = Inr res"
      and "\<not> py_in ''YES'' res"
      and "existing_prds E s = pre @ x # post"
      and "scan E (requirement_doc E c) pre [] (scan_entry E c s) = (Inr cf1, s1)"
      and "update_prd E (requirement_doc E c) x s1 = (Inl e, s2)"
  shows "run E s = (Inl e, s2)
       \<and> (\<forall>k d'. map_of cf1 k = Some d' \<longrightarrow> k \<noteq> own_file E s1 x \<longrightarrow>
                   map_of (prds_repo s2) k = Some (Some (content d')))"
proof -
  have "run E s = (Inl e, s2)"
    using assms scan_append_fail[OF assms(5,6), of post]
    by (simp add: run_unfold bind_Inl)
  moreover have
    "\<forall>k d. map_of cf1 k = Some d \<longrightarrow> map_of (prds_repo s1) k = Some (Some (content d))"
    using scan_stored[OF assms(5)] by simp
  moreover have "\<And>k. k \<noteq> own_file E s1 x \<Longrightarrow> map_of (prds_repo s2) k = map_of (prds_repo s1) k"
    using update_prd_frame[of _ E s1 x "requirement_doc E c"] assms(6) by simp
  ultimately show ?thesis by simp
qed

theorem merge_failure_aborts_run_witness:
  "existing_prds second_merge_fails project_state =
     [Some \<lparr>root_path = ''docs/prds'', filename = ''a.json'',
            content = ''PRD of the settings page''\<rparr>]
     @ Some \<lparr>root_path = ''docs/prds'', filename = ''b.json'',
             content = ''PRD of the login page''\<rparr> # []
   \<and> fst (scan second_merge_fails
            (requirement_doc second_merge_fails ''Add dark mode toggle to settings'')
            [Some \<lparr>root_path = ''docs/prds'', filename = ''a.json'',
                   content = ''PRD of the settings page''\<rparr>] []
            (scan_entry second_merge_fails ''Add dark mode toggle to settings'' project_state))
       = Inr [(''a.json'',
               \<lparr>root_path = ''docs/prds'', filename = ''a.json'', content = ''settings_app''\<rparr>)]
   \<and> fst (run second_merge_fails project_state) = Inl (External ''no [CONTENT] block'')
   \<and> map_of (prds_repo (snd (run second_merge_fails project_state))) ''a.json''
       = Some (Some ''settings_app'')"
proof -
  let ?E = second_merge_fails
  let ?c = "''Add dark mode toggle to settings''"
  let ?a = "\<lparr>root_path = ''docs/prds'', filename = ''a.json'',
              content = ''PRD of the settings page''\<rparr>"
  let ?a' = "\<lparr>root_path = ''docs/prds'', filename = ''a.json'', content = ''settings_app''\<rparr>"
  let ?b = "\<lparr>root_path = ''docs/prds'', filename = ''b.json'',
              content = ''PRD of the login page''\<rparr>"
  let ?s1 = "snd (scan ?E (requirement_doc ?E ?c) [Some ?a] [] (scan_entry ?E ?c project_state))"
  let ?s2 = "snd (update_prd ?E (requirement_doc ?E ?c) (Some ?b) ?s1)"
  have h1: "map_of (docs_repo project_state) (REQUIREMENT_FILENAME ?E) = Some ?c"
    by (simp add: example_defs)
  have h2: "aask ?E (IS_BUGFIX_PROMPT ?c) = Inr ''NO''"
    by (simp add: example_defs)
  have h3: "\<not> py_in ''YES'' ''NO''" by simp
  have h4: "existing_prds ?E project_state = [Some ?a] @ Some ?b # []"
    by (simp add: existing_prds_def example_defs)
  have f5: "fst (scan ?E (requirement_doc ?E ?c) [Some ?a] [] (scan_entry ?E ?c project_state))
              = Inr [(''a.json'', ?a')]"
    by (simp add: run_defs example_defs requirement_doc_def scan_entry_def)
  then have h5: "scan ?E (requirement_doc ?E ?c) [Some ?a] [] (scan_entry ?E ?c project_state)
              = (Inr [(''a.json'', ?a')], ?s1)"
    by (metis prod.collapse)
  have "fst (update_prd ?E (requirement_doc ?E ?c) (Some ?b) ?s1)
          = Inl (External ''no [CONTENT] block'')"
    by (simp add: run_defs example_defs requirement_doc_def scan_entry_def)
  then have h6: "update_prd ?E (requirement_doc ?E ?c) (Some ?b) ?s1
                   = (Inl (External ''no [CONTENT] block''), ?s2)"
    by (metis prod.collapse)
  note r = merge_failure_aborts_run[OF h1 h2 h3 h4 h5 h6]
  from r have run: "run ?E project_state = (Inl (External ''no [CONTENT] block''), ?s2)"
    by blast
  from r have "map_of [(''a.json'', ?a')] ''a.json'' = Some ?a' \<longrightarrow>
               ''a.json'' \<noteq> own_file ?E ?s1 (Some ?b) \<longrightarrow>
               map_of (prds_repo ?s2) ''a.json'' = Some (Some (content ?a'))"
    by blast
  then have "map_of (prds_repo ?s2) ''a.json'' = Some (Some ''settings_app'')"
    by (simp add: own_file_def)
  with run h4 f5 show ?thesis by simp
qed

text \<open>
  C8 as stated fails: both PRDs are related and the merge of the first cannot be parsed.
  The run raises; its calls end with the merge prompt of the first PRD, and the second
  PRD is never evaluated.
\<close>

theorem merge_failure_aborts_run_counterexample:
  "run merge_fails project_state =
     (Inl (External ''no [CONTENT] block''),
      project_state\<lparr>project_name := Some ''settings_app'',
        trace := [EvDocsGet ''requirement.txt'',
                  EvAsk (IS_BUGFIX_PROMPT ''Add dark mode toggle to settings''),
                  EvDocsDelete ''bugfix.txt'', EvPrdsGetAll,
                  EvAsk (IS_RELATIVE_PROMPT ''PRD of the settings page''
                           ''Add dark mode toggle to settings''),
                  EvAskV1 (MERGE_PROMPT ''Add dark mode toggle to settings''
                             ''PRD of the settings page'' ''settings_app'') ''json'']\<rparr>)"
  by (simp add: run_defs example_defs)

text \<open>
  C9, as the code has it. The diagram step is skipped silently when the decoded document
  has no competitive quadrant chart or an empty one. The diagram rendering and the export
  are not best-effort: a run returns a result only when every rendering and every export
  it invoked returned without raising, so a failure of either is propagated and aborts
  the run.
\<close>

theorem side_effects_not_best_effort:
  "(json_loads E (content d) = Inr (JObj kvs) \<longrightarrow>
      (case map_of kvs ''Competitive Quadrant Chart'' of None \<Rightarrow> True
       | Some v \<Rightarrow> \<not> json_truthy v) \<longrightarrow>
      save_competitive_analysis E d s0 = (Inr (), s0))
   \<and> (fst (run E s) = Inr r \<longrightarrow> side_effects_ok E s \<longrightarrow> side_effects_ok E (snd (run E s)))"
  using skip_chart[of E d kvs s0] ok_run[of E s r] by blast

theorem side_effects_not_best_effort_witness:
  "json_loads no_chart (content \<lparr>root_path = ''docs/prds'', filename = ''a.json'',
                                  content = ''settings_app''\<rparr>) = Inr (JObj [])
   \<and> save_competitive_analysis no_chart
        \<lparr>root_path = ''docs/prds'', filename = ''a.json'', content = ''settings_app''\<rparr>
        example_state = (Inr (), example_state)
   \<and> fst (run no_chart example_state) =
        Inr (ROutput [(''20231205174500.json'',
               \<lparr>root_path = ''docs/prds'', filename = ''20231205174500.json'',
                content = ''settings_app''\<rparr>)])
   \<and> side_effects_ok no_chart example_state
   \<and> side_effects_ok no_chart (snd (run no_chart example_state))"
proof -
  let ?d = "\<lparr>root_path = ''docs/prds'', filename = ''a.json'', content = ''settings_app''\<rparr>"
  let ?r = "ROutput [(''20231205174500.json'',
               \<lparr>root_path = ''docs/prds'', filename = ''20231205174500.json'',
                content = ''settings_app''\<rparr>)]"
  have a: "json_loads no_chart (content ?d) = Inr (JObj [])"
    by (simp add: example_defs)
  have b: "fst (run no_chart example_state) = Inr ?r"
    by (simp add: run_defs example_defs)
  have c: "side_effects_ok no_chart example_state"
    by (simp add: side_effects_ok_def example_defs)
  from side_effects_not_best_effort[of no_chart ?d "[]" example_state example_state ?r] a b c
  show ?thesis by simp
qed

text \<open>
  C9 as stated fails: in a fresh workspace whose diagram renderer raises, the run does
  not return a change set; it raises the renderer's exception.
\<close>

theorem side_effects_not_best_effort_counterexample:
  "fst (run render_fails example_state) = Inl (External ''mmdc not found'')"
  by (simp add: run_defs example_defs)

subsection \<open>The project name during a merge\<close>

text \<open>
  C10, as the code has it. When no project name is bound and the last segment of the
  configured project path is not empty, \<^verbatim>\<open>_merge\<close> binds the name to that segment
  before the prompt is built: the model is asked the merge prompt with the path-derived
  name, the name resolution after the answer finds that name bound and only invokes the
  workspace rename with it, and the final name is the path-derived one whatever project
  name the regenerated PRD carries.
\<close>

theorem merge_binds_name_from_path:
  assumes "\<not> truthy (project_name s)"
      and "project_path s = Some p"
      and "path_name p \<noteq> []"
  shows "merge E req prd s =
     (case aask_v1 E (MERGE_PROMPT (content req) (content prd) (path_name p)) (prompt_format E) of
        Inl e \<Rightarrow>
          (Inl e, s\<lparr>project_name := Some (path_name p),
                    trace := trace s @ [EvAskV1 (MERGE_PROMPT (content req) (content prd) (path_name p))
                                          (prompt_format E)]\<rparr>)
      | Inr out \<Rightarrow>
          (Inr (prd\<lparr>content := instruct_json E (instruct_content out)\<rparr>),
           s\<lparr>project_name := Some (path_name p),
             trace := trace s @ [EvAskV1 (MERGE_PROMPT (content req) (content prd) (path_name p))
                                   (prompt_format E),
                                 EvRenameRoot (path_name p)]\<rparr>))"
proof -
  have "p \<noteq> []" using assms(3) by (auto simp: path_name_def path_parts_def)
  then show ?thesis using assms
    by (simp add: merge_def name_from_path_def ask_v1_def rename_workspace_def name_from_prd_def
          rename_root_def monad_defs split: sum.splits)
qed

theorem merge_binds_name_from_path_witness:
  "\<not> truthy (project_name (project_state\<lparr>project_path := Some ''/ws/old_app''\<rparr>))
   \<and> path_name ''/ws/old_app'' = ''old_app''
   \<and> merge example_env (requirement_doc example_env ''Add dark mode toggle to settings'')
       \<lparr>root_path = ''docs/prds'', filename = ''a.json'', content = ''PRD of the settings page''\<rparr>
       (project_state\<lparr>project_path := Some ''/ws/old_app''\<rparr>) =
     (Inr \<lparr>root_path = ''docs/prds'', filename = ''a.json'', content = ''settings_app''\<rparr>,
      project_state\<lparr>project_path := Some ''/ws/old_app'', project_name := Some ''old_app'',
        trace := [EvAskV1 (MERGE_PROMPT ''Add dark mode toggle to settings''
                             ''PRD of the settings page'' ''old_app'') ''json'',
                  EvRenameRoot ''old_app'']\<rparr>)"
proof -
  have n: "path_name ''/ws/old_app'' = ''old_app''"
    by (simp add: path_name_def path_parts_def)
  from merge_binds_name_from_path[of "project_state\<lparr>project_path := Some ''/ws/old_app''\<rparr>"
         "''/ws/old_app''" example_env
         "requirement_doc example_env ''Add dark mode toggle to settings''"
         "\<lparr>root_path = ''docs/prds'', filename = ''a.json'',
           content = ''PRD of the settings page''\<rparr>"] n
  show ?thesis by (simp add: example_defs requirement_doc_def)
qed

text \<open>
  C10 as stated fails. With the project path \<^verbatim>\<open>.\<close>, whose last segment is empty,
  the name is still unbound after the merge. With the empty project path, the name
  resolution after the answer finds no name bound and binds the project name of the
  regenerated PRD, \<^verbatim>\<open>settings_app\<close>, and invokes the workspace rename with it.
\<close>

theorem merge_binds_name_from_path_counterexample:
  "\<not> truthy (project_name (snd (merge example_env
        (requirement_doc example_env ''Add dark mode toggle to settings'')
        \<lparr>root_path = ''docs/prds'', filename = ''a.json'', content = ''PRD of the settings page''\<rparr>
        (project_state\<lparr>project_path := Some ''.''\<rparr>))))
   \<and> merge example_env (requirement_doc example_env ''Add dark mode toggle to settings'')
        \<lparr>root_path = ''docs/prds'', filename = ''a.json'', content = ''PRD of the settings page''\<rparr>
        (project_state\<lparr>project_path := Some []\<rparr>) =
      (Inr \<lparr>root_path = ''docs/prds'', filename = ''a.json'', content = ''settings_app''\<rparr>,
       project_state\<lparr>project_path := Some [], project_name := Some ''settings_app'',
         trace := [EvAskV1 (MERGE_PROMPT ''Add dark mode toggle to settings''
                              ''PRD of the settings page'' []) ''json'',
                   EvRenameRoot ''settings_app'']\<rparr>)"
  by (simp add: run_defs example_defs requirement_doc_def)

end
